theory Spec2Isabelle
  imports Complex_Main
begin

unbundle bit_operations_syntax

section \<open>Host values: numbers, strings, errors\<close>

text \<open>
  The exporters are TypeScript running on three.js scene objects. A JavaScript number is
  modelled by the real number it denotes; NaN and the infinities are not values of this
  type, so every statement below is about finite numbers (on which \<open>===\<close> is equality
  of the denoted reals). Array indices and counts are natural numbers. An index read
  that yields \<open>undefined\<close> (or \<open>NaN\<close> after an addition) is \<open>None\<close>.
  The only exception the modelled code can raise by itself is the \<open>TypeError\<close> of a
  property read on \<open>undefined\<close>.
\<close>

type_synonym number = real

datatype error = TypeError

subsection \<open>\<open>Number.prototype.toString(radix)\<close>, \<open>padStart\<close>, \<open>Math.round\<close>\<close>

definition digitChar :: "nat \<Rightarrow> char" where
  "digitChar d = (''0123456789abcdef'' ! d)"

function natToString :: "nat \<Rightarrow> nat \<Rightarrow> string" where
  "natToString radix n =
     (if radix < 2 \<or> n < radix then [digitChar n]
      else natToString radix (n div radix) @ [digitChar (n mod radix)])"
  by pat_completeness auto
termination
  by (relation "measure snd") (auto simp: not_less)

declare natToString.simps [simp del]

text \<open>\<open>v.toString(radix)\<close> for an integral number \<open>v\<close>: a minus sign, then the digits.\<close>

definition intToString :: "nat \<Rightarrow> int \<Rightarrow> string" where
  "intToString radix v =
     (if v < 0 then ''-'' @ natToString radix (nat (- v)) else natToString radix (nat v))"

definition padStart :: "nat \<Rightarrow> char \<Rightarrow> string \<Rightarrow> string" where
  "padStart targetLength c s = replicate (targetLength - length s) c @ s"

text \<open>\<open>Math.round\<close>: the closest integer, a tie going to the larger one.\<close>

definition Math_round :: "number \<Rightarrow> int" where
  "Math_round v = \<lfloor>v + 1 / 2\<rfloor>"

subsection \<open>Values handed to \<open>XMLBuilder.build\<close> and \<open>JSON.stringify\<close>\<close>

datatype jsvalue =
    JUndefined
  | JNaN
  | JNumber nat
  | JString string
  | JArray "jsvalue list"
  | JObject "(string \<times> jsvalue) list"

section \<open>The three.js scene\<close>

datatype Vector3 = Vector3 (vec_x: number) (vec_y: number) (vec_z: number)

text \<open>
  A color holds its three channels in the working color space of three.js (linear sRGB
  where color management is enabled, which is the default since r152).
\<close>

datatype Color = Color (color_r: number) (color_g: number) (color_b: number)

text \<open>
  A material is a \<open>MeshPhongMaterial\<close> or not, and either exposes a (truthy) \<open>color\<close>
  property or does not; an array of materials is neither. \<open>mesh.material\<close> itself may
  be absent (\<open>None\<close>).
\<close>

datatype Material =
  Material (material_isMeshPhongMaterial: bool) (material_color: "Color option")

text \<open>
  A geometry: \<open>geometry.attributes.position\<close> as the list of its points (\<open>count\<close> is the
  length; \<open>None\<close> when the attribute is missing) and \<open>geometry.index\<close> (\<open>None\<close> for
  \<open>null\<close>).
\<close>

datatype BufferGeometry =
  BufferGeometry (attributes_position: "Vector3 list option") (geometry_index: "nat list option")

text \<open>
  A scene node. \<open>obj_transform\<close> stands for the node's \<open>position\<close>, \<open>quaternion\<close> and
  \<open>scale\<close>; \<open>obj_matrix\<close> is the local matrix, which \<open>updateMatrix()\<close> composes from
  them; \<open>obj_matrixWorldNeedsUpdate\<close> is the flag of that name; \<open>obj_matrixWorld\<close> is
  the world matrix. Both matrices are caches and may be stale. The flags
  \<open>matrixAutoUpdate\<close> and \<open>matrixWorldAutoUpdate\<close> have their default value
  \<open>true\<close>. Geometry and material are read on meshes only. The types \<open>'t\<close> of the
  transforms and \<open>'m\<close> of the matrices are left open.
\<close>

datatype ('t, 'm) Object3D =
  Object3D (obj_type: string) (obj_name: string) (obj_geometry: BufferGeometry)
    (obj_material: "Material option") (obj_transform: 't) (obj_matrix: 'm)
    (obj_matrixWorldNeedsUpdate: bool) (obj_matrixWorld: 'm)
    (obj_children: "('t, 'm) Object3D list")

text \<open>
  What the code takes from its libraries and from the host, as parameters. From three.js:
  the composition of a local matrix from position, quaternion and scale, the matrix
  product and the transformation of a point (floating point); the conversion of one
  color channel from sRGB to the working color space (\<open>SRGBToLinear\<close> under color
  management, the identity without it); \<open>Color.getHexString\<close>, which prints a color
  in sRGB as six hexadecimal digits; and the exporters \<open>STLExporter\<close>, \<open>OBJExporter\<close>
  and \<open>GLTFExporter\<close> (the last one may report an error instead of a result). From
  the host: the floating-point product of two numbers, \<open>Number::toString\<close> on
  magnitudes of \<open>10^21\<close> and more and, with a radix, on numbers that are not integral,
  \<open>XMLBuilder.build\<close>, \<open>JSON.stringify\<close>, the clock and the stream of values of
  \<open>Math.random() * 16 | 0\<close>.
\<close>

record ('t, 'm) runtime =
  compose :: "'t \<Rightarrow> 'm"
  multiplyMatrices :: "'m \<Rightarrow> 'm \<Rightarrow> 'm"
  applyMatrix4 :: "'m \<Rightarrow> Vector3 \<Rightarrow> Vector3"
  toWorkingColorSpace :: "number \<Rightarrow> number"
  getHexString :: "Color \<Rightarrow> string"
  stlParse :: "('t, 'm) Object3D \<Rightarrow> string"
  objParse :: "('t, 'm) Object3D \<Rightarrow> string"
  gltfParse :: "('t, 'm) Object3D \<Rightarrow> string option"
  fmul :: "number \<Rightarrow> number \<Rightarrow> number"
  toStringLarge :: "number \<Rightarrow> string"
  toStringFraction :: "nat \<Rightarrow> number \<Rightarrow> string"
  xmlBuild :: "jsvalue \<Rightarrow> string"
  jsonStringify :: "jsvalue \<Rightarrow> string"
  dateNow :: string
  random16 :: "nat \<Rightarrow> nat"

text \<open>
  \<open>object.updateMatrixWorld(true)\<close> of three.js. On the node: \<open>updateMatrix()\<close>
  composes the local matrix from position, quaternion and scale and sets
  \<open>matrixWorldNeedsUpdate\<close>; then, the update being forced, the world matrix becomes
  the parent's world matrix times the local matrix (the local matrix alone when there is
  no parent) and \<open>matrixWorldNeedsUpdate\<close> is cleared. Then the same for every child.
\<close>

fun updateMatrixWorld ::
  "('t, 'm) runtime \<Rightarrow> 'm option \<Rightarrow> ('t, 'm) Object3D \<Rightarrow> ('t, 'm) Object3D" where
  "updateMatrixWorld L parentWorld (Object3D t n g mat p m f w cs) =
     (let m' = compose L p;
          w' = (case parentWorld of None \<Rightarrow> m' | Some q \<Rightarrow> multiplyMatrices L q m')
      in Object3D t n g mat p m' False w' (map (updateMatrixWorld L (Some w')) cs))"

text \<open>
  \<open>color.set(hex)\<close>, that is \<open>setHex(hex, SRGBColorSpace)\<close>: the three bytes of
  \<open>hex\<close>, each divided by 255 and converted to the working color space.
  \<open>Color.setStyle\<close> on a style \<open>#rrggbb\<close> is \<open>setHex\<close> on that number.
\<close>

definition Color_setHex :: "('t, 'm) runtime \<Rightarrow> nat \<Rightarrow> Color" where
  "Color_setHex L hex =
     Color (toWorkingColorSpace L (real ((hex div 65536) mod 256) / 255))
       (toWorkingColorSpace L (real ((hex div 256) mod 256) / 255))
       (toWorkingColorSpace L (real (hex mod 256) / 255))"

text \<open>\<open>attribute.getX(i)\<close> on an index attribute: \<open>undefined\<close> past the end.\<close>

definition getX :: "nat list \<Rightarrow> nat \<Rightarrow> nat option" where
  "getX arr i = (if i < length arr then Some (arr ! i) else None)"

section \<open>The slicer-compatible exporter (3mf-exporter.ts)\<close>

record MaterialInfo =
  mi_id :: nat
  mi_color :: Color
  mi_name :: string
  mi_extruder :: nat

datatype Triangle = Triangle (tri_v1: "nat option") (tri_v2: "nat option") (tri_v3: "nat option")

record ComponentInfo =
  ci_id :: nat
  ci_vertices :: "Vector3 list"
  ci_triangles :: "Triangle list"
  ci_material :: "MaterialInfo option"
  ci_name :: string

subsection \<open>collectComponents\<close>

text \<open>Lines 82-89: the material's color, or gray \<open>0x808080\<close> when it has none.\<close>

definition materialColor :: "('t, 'm) runtime \<Rightarrow> Material \<Rightarrow> Color" where
  "materialColor L mat =
     (case material_color mat of Some c \<Rightarrow> c | None \<Rightarrow> Color_setHex L 8421504)"

text \<open>Lines 92-108: find an entry with the same three channels, or append a new one.\<close>

definition sameColor :: "Color \<Rightarrow> MaterialInfo \<Rightarrow> bool" where
  "sameColor color m \<longleftrightarrow>
     color_r (mi_color m) = color_r color \<and> color_g (mi_color m) = color_g color \<and>
     color_b (mi_color m) = color_b color"

definition registerMaterial ::
  "string \<Rightarrow> Color \<Rightarrow> MaterialInfo list \<Rightarrow> MaterialInfo \<times> MaterialInfo list" where
  "registerMaterial meshName color materials =
     (case find (sameColor color) materials of
        Some existingMaterial \<Rightarrow> (existingMaterial, materials)
      | None \<Rightarrow>
          (let extruder = length materials + 1;
               materialInfo = \<lparr>mi_id = length materials, mi_color = color,
                 mi_name = (if meshName \<noteq> [] then meshName @ ''_material''
                            else ''material_'' @ natToString 10 (length materials)),
                 mi_extruder = extruder\<rparr>
           in (materialInfo, materials @ [materialInfo])))"

text \<open>Lines 137-143 and 147-153: the two triangle loops, started at \<open>i = 0\<close>.\<close>

function indexedTriangles :: "nat list \<Rightarrow> nat \<Rightarrow> Triangle list" where
  "indexedTriangles arr i =
     (if i < length arr
      then Triangle (getX arr i) (getX arr (i + 1)) (getX arr (i + 2)) # indexedTriangles arr (i + 3)
      else [])"
  by pat_completeness auto
termination
  by (relation "measure (\<lambda>(arr, i). length arr - i)") auto

declare indexedTriangles.simps [simp del]

function plainTriangles :: "nat \<Rightarrow> nat \<Rightarrow> Triangle list" where
  "plainTriangles count i =
     (if i < count
      then Triangle (Some i) (Some (i + 1)) (Some (i + 2)) # plainTriangles count (i + 3)
      else [])"
  by pat_completeness auto
termination
  by (relation "measure (\<lambda>(count, i). count - i)") auto

declare plainTriangles.simps [simp del]

text \<open>
  Lines 72-157, the body run for a node of type \<open>Mesh\<close>, on the node's name, its
  (just updated) world matrix, geometry and material. Reading \<open>positionAttr.count\<close>
  of a missing position attribute raises.
\<close>

definition collectMesh ::
  "('t, 'm) runtime \<Rightarrow> string \<Rightarrow> 'm \<Rightarrow> BufferGeometry \<Rightarrow> Material option \<Rightarrow>
   ComponentInfo list \<Rightarrow> MaterialInfo list \<Rightarrow> error + (ComponentInfo list \<times> MaterialInfo list)" where
  "collectMesh L meshName worldMatrix geometry material components materials =
     (let (materialInfo, materials1) =
            (case material of
               None \<Rightarrow> (None, materials)
             | Some mat \<Rightarrow>
                 (let (mi, ms) = registerMaterial meshName (materialColor L mat) materials
                  in (Some mi, ms)));
          componentId = 100 + length components
      in case attributes_position geometry of
           None \<Rightarrow> Inl TypeError
         | Some positionAttr \<Rightarrow>
             Inr (components @
                  [\<lparr>ci_id = componentId,
                    ci_vertices = map (applyMatrix4 L worldMatrix) positionAttr,
                    ci_triangles =
                      (case geometry_index geometry of
                         Some indexAttr \<Rightarrow> indexedTriangles indexAttr 0
                       | None \<Rightarrow> plainTriangles (length positionAttr) 0),
                    ci_material = materialInfo,
                    ci_name = (if meshName \<noteq> [] then meshName
                               else ''Default-'' @ natToString 10 componentId)\<rparr>],
                  materials1))"

lemma size_updateMatrixWorld [simp]: "size (updateMatrixWorld L pw object) = size object"
proof (induction object arbitrary: pw)
  case (Object3D t n g mat p m f w cs)
  have "size_list size (map (updateMatrixWorld L q) cs) = size_list size cs" for q
    using Object3D.IH by (induction cs) auto
  then show ?case by (simp add: Let_def)
qed

text \<open>
  Lines 64-163. The scene is mutable state: the call returns the node as the call
  leaves it, next to the two lists it appends to. The second argument is the cached world
  matrix of the node's parent (\<open>None\<close> when the node has no parent).
\<close>

function collectComponents ::
  "('t, 'm) runtime \<Rightarrow> 'm option \<Rightarrow> ('t, 'm) Object3D \<Rightarrow> ComponentInfo list \<Rightarrow> MaterialInfo list \<Rightarrow>
   error + (('t, 'm) Object3D \<times> ComponentInfo list \<times> MaterialInfo list)"
and forEachChild ::
  "('t, 'm) runtime \<Rightarrow> 'm \<Rightarrow> ('t, 'm) Object3D list \<Rightarrow> ComponentInfo list \<Rightarrow> MaterialInfo list \<Rightarrow>
   error + (('t, 'm) Object3D list \<times> ComponentInfo list \<times> MaterialInfo list)" where
  "collectComponents L parentWorld object components materials =
     (let object1 = updateMatrixWorld L parentWorld object
      in case (if obj_type object1 = ''Mesh''
               then collectMesh L (obj_name object1) (obj_matrixWorld object1)
                      (obj_geometry object1) (obj_material object1) components materials
               else Inr (components, materials)) of
           Inl e \<Rightarrow> Inl e
         | Inr (components1, materials1) \<Rightarrow>
             (case forEachChild L (obj_matrixWorld object1) (obj_children object1)
                     components1 materials1 of
                Inl e \<Rightarrow> Inl e
              | Inr (children1, components2, materials2) \<Rightarrow>
                  Inr (Object3D (obj_type object1) (obj_name object1) (obj_geometry object1)
                         (obj_material object1) (obj_transform object1) (obj_matrix object1)
                         (obj_matrixWorldNeedsUpdate object1) (obj_matrixWorld object1)
                         children1,
                       components2, materials2)))"
| "forEachChild L w [] components materials = Inr ([], components, materials)"
| "forEachChild L w (child # rest) components materials =
     (case collectComponents L (Some w) child components materials of
        Inl e \<Rightarrow> Inl e
      | Inr (child1, components1, materials1) \<Rightarrow>
          (case forEachChild L w rest components1 materials1 of
             Inl e \<Rightarrow> Inl e
           | Inr (rest1, components2, materials2) \<Rightarrow>
               Inr (child1 # rest1, components2, materials2)))"
  by pat_completeness auto
termination
proof (relation "measure (\<lambda>a. case a of
          Inl (L, pw, object, cs, ms) \<Rightarrow> 2 * size object
        | Inr (L, w, objects, cs, ms) \<Rightarrow> 2 * size_list size objects + 1)", goal_cases)
  case 1
  show ?case by simp
next
  case (2 L parentWorld object components materials x xa y xb)
  have "size_list size (obj_children (updateMatrixWorld L parentWorld object)) < size object"
    by (cases object) (simp add: Let_def size_list_conv_sum_list comp_def less_Suc_eq_le
         sum_list_mono)
  with 2 show ?case by simp
next
  case 3
  show ?case by simp
next
  case 4
  show ?case by simp
qed

declare collectComponents.simps [simp del]

subsection \<open>The flattening the exporter performs, as a list of leaves\<close>

text \<open>
  A leaf is what the body for a \<open>Mesh\<close> node reads: world matrix, name, geometry and
  material. \<open>worldLeaves\<close> lists the leaves of a scene in depth-first pre-order, the
  children in their stored order, each with the world matrix composed top-down from the
  positions, quaternions and scales; it never reads a cached matrix. \<open>collectLeaves\<close> runs the mesh
  body over such a list.
\<close>

type_synonym 'm leaf = "'m \<times> string \<times> BufferGeometry \<times> Material option"

fun worldLeaves :: "('t, 'm) runtime \<Rightarrow> 'm option \<Rightarrow> ('t, 'm) Object3D \<Rightarrow> 'm leaf list" where
  "worldLeaves L parentWorld (Object3D t n g mat p m f w cs) =
     (let world = (case parentWorld of None \<Rightarrow> compose L p | Some q \<Rightarrow> multiplyMatrices L q (compose L p))
      in (if t = ''Mesh'' then [(world, n, g, mat)] else []) @
         concat (map (worldLeaves L (Some world)) cs))"

fun collectLeaves ::
  "('t, 'm) runtime \<Rightarrow> 'm leaf list \<Rightarrow> ComponentInfo list \<Rightarrow> MaterialInfo list \<Rightarrow>
   error + (ComponentInfo list \<times> MaterialInfo list)" where
  "collectLeaves L [] components materials = Inr (components, materials)"
| "collectLeaves L ((w, n, g, mat) # rest) components materials =
     (case collectMesh L n w g mat components materials of
        Inl e \<Rightarrow> Inl e
      | Inr (components1, materials1) \<Rightarrow> collectLeaves L rest components1 materials1)"

text \<open>
  The table of colors in order of first appearance is built by \<open>insertNew\<close>. The
  color the mesh body resolves for a leaf, and the leaf's vertices in world space. A
  well-formed material table has no two entries of the same color, and the entry at index
  \<open>i\<close> has id \<open>i\<close> and extruder \<open>i + 1\<close>; \<open>materialsIn\<close> says that the materials of
  the components are entries of the table.
\<close>

definition insertNew :: "'a list \<Rightarrow> 'a \<Rightarrow> 'a list" where
  "insertNew table c = (if c \<in> set table then table else table @ [c])"

definition leafColor :: "('t, 'm) runtime \<Rightarrow> 'm leaf \<Rightarrow> Color option" where
  "leafColor L leaf = (case leaf of (w, n, g, mat) \<Rightarrow> map_option (materialColor L) mat)"

definition leafVertices :: "('t, 'm) runtime \<Rightarrow> 'm leaf \<Rightarrow> Vector3 list" where
  "leafVertices L leaf =
     (case leaf of (w, n, g, mat) \<Rightarrow>
        (case attributes_position g of None \<Rightarrow> [] | Some ps \<Rightarrow> map (applyMatrix4 L w) ps))"

definition tableOk :: "MaterialInfo list \<Rightarrow> bool" where
  "tableOk ms \<longleftrightarrow>
     distinct (map mi_color ms) \<and>
     (\<forall>i<length ms. mi_id (ms ! i) = i \<and> mi_extruder (ms ! i) = i + 1)"

definition materialsIn :: "ComponentInfo list \<Rightarrow> MaterialInfo list \<Rightarrow> bool" where
  "materialsIn cs ms \<longleftrightarrow> (\<forall>c\<in>set cs. \<forall>m. ci_material c = Some m \<longrightarrow> m \<in> set ms)"

subsection \<open>\<open>Number.prototype.toFixed\<close>\<close>

text \<open>
  \<open>v.toFixed(fractionDigits)\<close> as ECMAScript defines it on the exact value of \<open>v\<close>:
  the sign, then the integer \<open>n\<close> closest to \<open>|v| * 10^f\<close> (the larger one at a tie)
  printed in decimal, padded with zeros to \<open>f + 1\<close> digits, with a point before the
  last \<open>f\<close> digits. From \<open>10^21\<close> on the result is that of \<open>Number::toString\<close>.
\<close>

definition toFixed :: "('t, 'm) runtime \<Rightarrow> nat \<Rightarrow> number \<Rightarrow> string" where
  "toFixed L fractionDigits v =
     (let s = (if v < 0 then ''-'' else '''');
          x = \<bar>v\<bar>
      in if 10 ^ 21 \<le> x then s @ toStringLarge L x
         else
           (let n = nat \<lfloor>x * 10 ^ fractionDigits + 1 / 2\<rfloor>;
                m = natToString 10 n;
                m1 = (if fractionDigits \<noteq> 0
                      then (let m2 = (if length m \<le> fractionDigits
                                      then replicate (fractionDigits + 1 - length m) (CHR ''0'') @ m
                                      else m);
                                k = length m2
                            in take (k - fractionDigits) m2 @ ''.'' @ drop (k - fractionDigits) m2)
                      else m)
            in s @ m1))"

subsection \<open>The generated parts\<close>

text \<open>
  Lines 386-392. \<open>generateUUID\<close> replaces every \<open>x\<close> and \<open>y\<close> of the template by a
  hexadecimal digit drawn from \<open>Math.random\<close>; its argument is the stream of the draws
  \<open>Math.random() * 16 | 0\<close> of this call. The \<open>k\<close>-th call of an export draws from
  \<open>callDraws L k\<close>.
\<close>

fun uuidReplace :: "(nat \<Rightarrow> nat) \<Rightarrow> nat \<Rightarrow> string \<Rightarrow> string" where
  "uuidReplace draws k [] = []"
| "uuidReplace draws k (c # rest) =
     (if c = CHR ''x'' \<or> c = CHR ''y''
      then (let r = draws k;
                v = (if c = CHR ''x'' then r else (r AND 3) OR 8)
            in natToString 16 v @ uuidReplace draws (k + 1) rest)
      else c # uuidReplace draws k rest)"

definition generateUUID :: "(nat \<Rightarrow> nat) \<Rightarrow> string" where
  "generateUUID draws = uuidReplace draws 0 ''xxxxxxxx-xxxx-4xxx-yxxx-xxxxxxxxxxxx''"

definition callDraws :: "('t, 'm) runtime \<Rightarrow> nat \<Rightarrow> nat \<Rightarrow> nat" where
  "callDraws L k i = random16 L (31 * k + i)"

definition xmlDeclaration :: string where
  "xmlDeclaration = ''<?xml version=\"1.0\" encoding=\"UTF-8\"?>\<newline>''"

text \<open>
  Lines 168-216. \<open>mainModel\<close> is the object literal \<open>model\<close>; the file is the XML
  declaration followed by what \<open>XMLBuilder.build\<close> makes of it.
\<close>

definition mainModel :: "('t, 'm) runtime \<Rightarrow> ComponentInfo list \<Rightarrow> jsvalue" where
  "mainModel L components =
     JObject [(''model'', JObject
       [(''@_unit'', JString ''millimeter''),
        (''@_xml:lang'', JString ''en-US''),
        (''@_xmlns'', JString ''http://schemas.microsoft.com/3dmanufacturing/core/2015/02''),
        (''@_xmlns:slic3rpe'', JString ''http://schemas.slic3r.org/3mf/2017/06''),
        (''@_xmlns:p'', JString ''http://schemas.microsoft.com/3dmanufacturing/production/2015/06''),
        (''@_requiredextensions'', JString ''p''),
        (''metadata'', JArray
          [JObject [(''@_name'', JString ''Application''), (''#text'', JString ''BambuStudio-01.07.04.52'')],
           JObject [(''@_name'', JString ''Title''), (''#text'', JString ''Exported 3D Model'')],
           JObject [(''@_name'', JString ''CreationDate''), (''#text'', JString (dateNow L))],
           JObject [(''@_name'', JString ''Copyright''),
                    (''#text'', JString ''Copyright (c) 2023. All rights reserved.'')]]),
        (''resources'', JObject
          [(''object'', JObject
            [(''@_id'', JString ''97''),
             (''@_p:uuid'', JString (generateUUID (callDraws L 0))),
             (''@_type'', JString ''model''),
             (''components'', JObject
               [(''component'', JArray (map (\<lambda>comp. JObject
                   [(''@_p:path'', JString ''/3D/Objects/object-97.model''),
                    (''@_objectid'', JString (natToString 10 (ci_id comp)))]) components))])])]),
        (''build'', JObject
          [(''@_p:uuid'', JString (generateUUID (callDraws L 1) @ ''1'')),
           (''item'', JObject
             [(''@_objectid'', JString ''97''),
              (''@_p:uuid'', JString (generateUUID (callDraws L 2) @ ''2'')),
              (''@_transform'', JString ''1 0 0 0 1 0 0 0 1 0 0 0''),
              (''@_printable'', JString ''1'')])])])]"

definition createMainModelXML :: "('t, 'm) runtime \<Rightarrow> ComponentInfo list \<Rightarrow> string" where
  "createMainModelXML L components = xmlDeclaration @ xmlBuild L (mainModel L components)"

text \<open>Lines 221-266. The \<open>k\<close>-th component's UUID is the call number \<open>3 + k\<close>.\<close>

definition indexValue :: "nat option \<Rightarrow> jsvalue" where
  "indexValue v = (case v of None \<Rightarrow> JUndefined | Some n \<Rightarrow> JNumber n)"

definition vertexEntry :: "('t, 'm) runtime \<Rightarrow> Vector3 \<Rightarrow> jsvalue" where
  "vertexEntry L v =
     JObject [(''@_x'', JString (toFixed L 7 (vec_x v))),
              (''@_y'', JString (toFixed L 7 (vec_y v))),
              (''@_z'', JString (toFixed L 7 (vec_z v)))]"

definition triangleEntry :: "Triangle \<Rightarrow> jsvalue" where
  "triangleEntry t =
     JObject [(''@_v1'', indexValue (tri_v1 t)),
              (''@_v2'', indexValue (tri_v2 t)),
              (''@_v3'', indexValue (tri_v3 t))]"

definition objectEntry :: "('t, 'm) runtime \<Rightarrow> nat \<times> ComponentInfo \<Rightarrow> jsvalue" where
  "objectEntry L kc =
     (case kc of (k, component) \<Rightarrow>
        JObject [(''object'', JObject
          [(''@_id'', JString (natToString 10 (ci_id component))),
           (''@_p:uuid'', JString (generateUUID (callDraws L (3 + k)))),
           (''@_type'', JString ''model''),
           (''mesh'', JObject
             [(''vertices'', JObject
                [(''vertex'', JArray (map (vertexEntry L) (ci_vertices component)))]),
              (''triangles'', JObject
                [(''triangle'', JArray (map triangleEntry (ci_triangles component)))])])])])"

definition objectModel :: "('t, 'm) runtime \<Rightarrow> ComponentInfo list \<Rightarrow> jsvalue" where
  "objectModel L components =
     JObject [(''model'', JObject
       [(''@_unit'', JString ''millimeter''),
        (''@_xml:lang'', JString ''en-US''),
        (''@_xmlns'', JString ''http://schemas.microsoft.com/3dmanufacturing/core/2015/02''),
        (''@_xmlns:p'', JString ''http://schemas.microsoft.com/3dmanufacturing/production/2015/06''),
        (''resources'', JArray (map (objectEntry L) (enumerate 0 components)))])]"

definition createObjectModelXML :: "('t, 'm) runtime \<Rightarrow> ComponentInfo list \<Rightarrow> string" where
  "createObjectModelXML L components = xmlDeclaration @ xmlBuild L (objectModel L components)"

text \<open>Lines 271-301: a text template, the parts joined by newlines.\<close>

fun join :: "string \<Rightarrow> string list \<Rightarrow> string" where
  "join sep [] = []"
| "join sep [s] = s"
| "join sep (s # t # rest) = s @ sep @ join sep (t # rest)"

definition partXml :: "ComponentInfo \<Rightarrow> string" where
  "partXml component =
     (let extruder = (case ci_material component of Some m \<Rightarrow> mi_extruder m | None \<Rightarrow> 1)
      in ''    <part id=\"'' @ natToString 10 (ci_id component) @ ''\" subtype=\"normal_part\">\<newline>'' @
         ''      <metadata key=\"name\" value=\"'' @ ci_name component @ ''\"/>\<newline>'' @
         ''      <metadata key=\"extruder\" value=\"'' @ natToString 10 extruder @ ''\"/>\<newline>'' @
         ''      <mesh_stat edges_fixed=\"0\" degenerate_facets=\"0\" facets_removed=\"0\" facets_reversed=\"0\" backwards_edges=\"0\"/>\<newline>'' @
         ''    </part>'')"

definition createModelSettingsXML :: "ComponentInfo list \<Rightarrow> string" where
  "createModelSettingsXML components =
     (let partsXml = join ''\<newline>'' (map partXml components)
      in ''<?xml version=\"1.0\" encoding=\"UTF-8\"?>\<newline>'' @
         ''<config>\<newline>'' @
         ''  <object id=\"97\">\<newline>'' @
         ''    <metadata key=\"name\" value=\"Exported3DModel.3mf\"/>\<newline>'' @
         ''    <metadata key=\"extruder\" value=\"1\"/>\<newline>'' @
         ''    <metadata key=\"thumbnail_file\" value=\"\"/>\<newline>'' @
         partsXml @ ''\<newline>'' @
         ''  </object>\<newline>'' @
         ''  <plate>\<newline>'' @
         ''    <metadata key=\"plater_id\" value=\"1\"/>\<newline>'' @
         ''    <metadata key=\"plater_name\" value=\"plate-1\"/>\<newline>'' @
         ''    <model_instance>\<newline>'' @
         ''      <metadata key=\"object_id\" value=\"97\"/>\<newline>'' @
         ''      <metadata key=\"instance_id\" value=\"0\"/>\<newline>'' @
         ''    </model_instance>\<newline>'' @
         ''  </plate>\<newline>'' @
         ''  <assemble>\<newline>'' @
         ''    <assemble_item object_id=\"97\" instance_id=\"0\" offset=\"0 0 0\"/>\<newline>'' @
         ''  </assemble>\<newline>'' @
         ''</config>'')"

text \<open>Lines 376-381.\<close>

definition rgbToHexColor :: "('t, 'm) runtime \<Rightarrow> Color \<Rightarrow> string" where
  "rgbToHexColor L color =
     (let r = Math_round (fmul L (color_r color) 255);
          g = Math_round (fmul L (color_g color) 255);
          b = Math_round (fmul L (color_b color) 255)
      in ''#'' @ padStart 2 (CHR ''0'') (intToString 16 r) @
         padStart 2 (CHR ''0'') (intToString 16 g) @ padStart 2 (CHR ''0'') (intToString 16 b))"

text \<open>
  Lines 306-338. The loop that pads the colors, the object literal \<open>projectSettings\<close>,
  and the file \<open>JSON.stringify\<close> makes of it.
\<close>

function padColors :: "string list \<Rightarrow> string list" where
  "padColors colors = (if length colors < 2 then padColors (colors @ [''#FFFFFF'']) else colors)"
  by pat_completeness auto
termination
  by (relation "measure (\<lambda>colors. 2 - length colors)") auto

declare padColors.simps [simp del]

definition projectSettings :: "('t, 'm) runtime \<Rightarrow> MaterialInfo list \<Rightarrow> jsvalue" where
  "projectSettings L materials =
     (let colors = padColors (map (\<lambda>m. rgbToHexColor L (mi_color m)) materials)
      in JObject
        [(''printable_area'', JArray [JString ''0x0'', JString ''180x0'', JString ''180x180'', JString ''0x180'']),
         (''printable_height'', JString ''180''),
         (''bed_exclude_area'', JArray []),
         (''filament_colour'', JArray (map JString colors)),
         (''filament_settings_id'', JArray (replicate (length colors) (JString ''Bambu PLA Basic @BBL A1M''))),
         (''filament_diameter'', JArray (replicate (length colors) (JString ''1.75''))),
         (''filament_is_support'', JArray (replicate (length colors) (JString ''0''))),
         (''printer_model'', JString ''Bambu Lab A1 mini''),
         (''layer_height'', JString ''0.2''),
         (''wall_loops'', JString ''2''),
         (''sparse_infill_density'', JString ''15%''),
         (''printer_settings_id'', JString ''Bambu Lab A1 mini 0.4 nozzle''),
         (''printer_variant'', JString ''0.4''),
         (''nozzle_diameter'', JArray [JString ''0.4'']),
         (''enable_support'', JString ''0''),
         (''support_type'', JString ''normal(auto)''),
         (''print_settings_id'', JString ''0.20mm Standard'')])"

definition createProjectSettingsConfig :: "('t, 'm) runtime \<Rightarrow> MaterialInfo list \<Rightarrow> string" where
  "createProjectSettingsConfig L materials = jsonStringify L (projectSettings L materials)"

text \<open>Lines 343-371: three constant files.\<close>

definition contentTypesXML :: string where
  "contentTypesXML =
     ''<?xml version=\"1.0\" encoding=\"UTF-8\"?>\<newline>'' @
     ''<Types xmlns=\"http://schemas.openxmlformats.org/package/2006/content-types\">\<newline>'' @
     ''  <Default Extension=\"rels\" ContentType=\"application/vnd.openxmlformats-package.relationships+xml\" />\<newline>'' @
     ''  <Default Extension=\"model\" ContentType=\"application/vnd.ms-package.3dmanufacturing-3dmodel+xml\" />\<newline>'' @
     ''  <Default Extension=\"png\" ContentType=\"image/png\" />\<newline>'' @
     ''  <Default Extension=\"gcode\" ContentType=\"text/x.gcode\"/>\<newline>'' @
     ''</Types>''"

definition relationshipsXML :: string where
  "relationshipsXML =
     ''<?xml version=\"1.0\" encoding=\"UTF-8\"?>\<newline>'' @
     ''<Relationships xmlns=\"http://schemas.openxmlformats.org/package/2006/relationships\">\<newline>'' @
     ''  <Relationship Id=\"rel-1\" Target=\"/3D/3dmodel.model\" Type=\"http://schemas.microsoft.com/3dmanufacturing/2013/01/3dmodel\"/>\<newline>'' @
     ''</Relationships>''"

definition objectRelationshipsXML :: string where
  "objectRelationshipsXML =
     ''<?xml version=\"1.0\" encoding=\"UTF-8\"?>\<newline>'' @
     ''<Relationships xmlns=\"http://schemas.openxmlformats.org/package/2006/relationships\">\<newline>'' @
     ''  <Relationship Target=\"/3D/Objects/object-97.model\" Id=\"rel-97\" Type=\"http://schemas.microsoft.com/3dmanufacturing/2013/01/3dmodel\"/>\<newline>'' @
     ''</Relationships>''"

subsection \<open>exportTo3MF\<close>

text \<open>
  Lines 32-59. The archive is the map from the paths of its files to their contents
  (\<open>zip.file\<close> sets one entry; the folder entries JSZip adds and the compression of
  \<open>generateAsync\<close> are not modelled). The call returns the scene as it leaves it, next
  to the archive.
\<close>

type_synonym archive = "string \<rightharpoonup> string"

definition zip_file :: "string \<Rightarrow> string \<Rightarrow> archive \<Rightarrow> archive" where
  "zip_file path content z = z(path \<mapsto> content)"

definition packageFiles :: "('t, 'm) runtime \<Rightarrow> ComponentInfo list \<Rightarrow> MaterialInfo list \<Rightarrow> archive" where
  "packageFiles L components materials =
     (let mainModelXml = createMainModelXML L components;
          objectModelXml = createObjectModelXML L components;
          modelSettingsXml = createModelSettingsXML components;
          projectSettingsConfig = createProjectSettingsConfig L materials
      in zip_file ''Metadata/project_settings.config'' projectSettingsConfig
          (zip_file ''Metadata/model_settings.config'' modelSettingsXml
            (zip_file ''3D/Objects/object-97.model'' objectModelXml
              (zip_file ''3D/_rels/3dmodel.model.rels'' objectRelationshipsXML
                (zip_file ''3D/3dmodel.model'' mainModelXml
                  (zip_file ''_rels/.rels'' relationshipsXML
                    (zip_file ''[Content_Types].xml'' contentTypesXML Map.empty)))))))"

definition exportTo3MF ::
  "('t, 'm) runtime \<Rightarrow> 'm option \<Rightarrow> ('t, 'm) Object3D \<Rightarrow> error + (('t, 'm) Object3D \<times> archive)" where
  "exportTo3MF L parentWorld object =
     (case collectComponents L parentWorld object [] [] of
        Inl e \<Rightarrow> Inl e
      | Inr (object1, components, materials) \<Rightarrow>
          Inr (object1, packageFiles L components materials))"


section \<open>The merged single-object exporter (part_001)\<close>

record MergedMaterialInfo =
  mm_id :: nat
  mm_color :: Color
  mm_name :: string

datatype MergedTriangle =
  MergedTriangle (mt_v1: "nat option") (mt_v2: "nat option") (mt_v3: "nat option")
    (mt_pid: "nat option")

text \<open>\<open>vertexOffset + v\<close>, which is \<open>NaN\<close> (here \<open>None\<close>) when \<open>v\<close> is \<open>undefined\<close>.\<close>

definition addOffset :: "nat \<Rightarrow> nat option \<Rightarrow> nat option" where
  "addOffset vertexOffset v = (case v of None \<Rightarrow> None | Some k \<Rightarrow> Some (vertexOffset + k))"

text \<open>Lines 180-187 and 191-198: the two triangle loops, started at \<open>i = 0\<close>.\<close>

function mergedIndexedTriangles ::
  "nat \<Rightarrow> nat option \<Rightarrow> nat list \<Rightarrow> nat \<Rightarrow> MergedTriangle list" where
  "mergedIndexedTriangles vertexOffset materialId arr i =
     (if i < length arr
      then MergedTriangle (addOffset vertexOffset (getX arr i))
             (addOffset vertexOffset (getX arr (i + 1)))
             (addOffset vertexOffset (getX arr (i + 2))) materialId #
           mergedIndexedTriangles vertexOffset materialId arr (i + 3)
      else [])"
  by pat_completeness auto
termination
  by (relation "measure (\<lambda>(vertexOffset, materialId, arr, i). length arr - i)") auto

declare mergedIndexedTriangles.simps [simp del]

function mergedPlainTriangles ::
  "nat \<Rightarrow> nat option \<Rightarrow> nat \<Rightarrow> nat \<Rightarrow> MergedTriangle list" where
  "mergedPlainTriangles vertexOffset materialId count i =
     (if i < count
      then MergedTriangle (Some (vertexOffset + i)) (Some (vertexOffset + i + 1))
             (Some (vertexOffset + i + 2)) materialId #
           mergedPlainTriangles vertexOffset materialId count (i + 3)
      else [])"
  by pat_completeness auto
termination
  by (relation "measure (\<lambda>(vertexOffset, materialId, count, i). count - i)") auto

declare mergedPlainTriangles.simps [simp del]

definition sameColorMerged :: "Color \<Rightarrow> MergedMaterialInfo \<Rightarrow> bool" where
  "sameColorMerged color m \<longleftrightarrow>
     color_r (mm_color m) = color_r color \<and> color_g (mm_color m) = color_g color \<and>
     color_b (mm_color m) = color_b color"

text \<open>Lines 126-200, the body run for a node of type \<open>Mesh\<close>.\<close>

definition processMesh ::
  "('t, 'm) runtime \<Rightarrow> string \<Rightarrow> 'm \<Rightarrow> BufferGeometry \<Rightarrow> Material option \<Rightarrow>
   Vector3 list \<Rightarrow> MergedTriangle list \<Rightarrow> MergedMaterialInfo list \<Rightarrow>
   error + (Vector3 list \<times> MergedTriangle list \<times> MergedMaterialInfo list)" where
  "processMesh L meshName worldMatrix geometry material vertices triangles materials =
     (let vertexOffset = length vertices;
          (materialId, materials1) =
            (case material of
               None \<Rightarrow> (None, materials)
             | Some mat \<Rightarrow>
                 (let color = materialColor L mat
                  in case find (sameColorMerged color) materials of
                       Some existingMaterial \<Rightarrow> (Some (mm_id existingMaterial), materials)
                     | None \<Rightarrow>
                         (let newId = length materials;
                              materialName = (if meshName \<noteq> [] then meshName @ ''_material''
                                              else ''material_'' @ natToString 10 newId)
                          in (Some newId,
                              materials @
                              [\<lparr>mm_id = newId, mm_color = color, mm_name = materialName\<rparr>]))))
      in case attributes_position geometry of
           None \<Rightarrow> Inl TypeError
         | Some positionAttr \<Rightarrow>
             Inr (vertices @ map (applyMatrix4 L worldMatrix) positionAttr,
                  triangles @
                  (case geometry_index geometry of
                     Some indexAttr \<Rightarrow> mergedIndexedTriangles vertexOffset materialId indexAttr 0
                   | None \<Rightarrow>
                       mergedPlainTriangles vertexOffset materialId (length positionAttr) 0),
                  materials1))"

text \<open>Lines 117-206.\<close>

function processObject ::
  "('t, 'm) runtime \<Rightarrow> 'm option \<Rightarrow> ('t, 'm) Object3D \<Rightarrow>
   Vector3 list \<Rightarrow> MergedTriangle list \<Rightarrow> MergedMaterialInfo list \<Rightarrow>
   error + (('t, 'm) Object3D \<times> Vector3 list \<times> MergedTriangle list \<times> MergedMaterialInfo list)"
and processChildren ::
  "('t, 'm) runtime \<Rightarrow> 'm \<Rightarrow> ('t, 'm) Object3D list \<Rightarrow>
   Vector3 list \<Rightarrow> MergedTriangle list \<Rightarrow> MergedMaterialInfo list \<Rightarrow>
   error + (('t, 'm) Object3D list \<times> Vector3 list \<times> MergedTriangle list \<times> MergedMaterialInfo list)"
where
  "processObject L parentWorld object vertices triangles materials =
     (let object1 = updateMatrixWorld L parentWorld object
      in case (if obj_type object1 = ''Mesh''
               then processMesh L (obj_name object1) (obj_matrixWorld object1)
                      (obj_geometry object1) (obj_material object1) vertices triangles materials
               else Inr (vertices, triangles, materials)) of
           Inl e \<Rightarrow> Inl e
         | Inr (vertices1, triangles1, materials1) \<Rightarrow>
             (case processChildren L (obj_matrixWorld object1) (obj_children object1)
                     vertices1 triangles1 materials1 of
                Inl e \<Rightarrow> Inl e
              | Inr (children1, vertices2, triangles2, materials2) \<Rightarrow>
                  Inr (Object3D (obj_type object1) (obj_name object1) (obj_geometry object1)
                         (obj_material object1) (obj_transform object1) (obj_matrix object1)
                         (obj_matrixWorldNeedsUpdate object1) (obj_matrixWorld object1)
                         children1,
                       vertices2, triangles2, materials2)))"
| "processChildren L w [] vertices triangles materials = Inr ([], vertices, triangles, materials)"
| "processChildren L w (child # rest) vertices triangles materials =
     (case processObject L (Some w) child vertices triangles materials of
        Inl e \<Rightarrow> Inl e
      | Inr (child1, vertices1, triangles1, materials1) \<Rightarrow>
          (case processChildren L w rest vertices1 triangles1 materials1 of
             Inl e \<Rightarrow> Inl e
           | Inr (rest1, vertices2, triangles2, materials2) \<Rightarrow>
               Inr (child1 # rest1, vertices2, triangles2, materials2)))"
  by pat_completeness auto
termination
proof (relation "measure (\<lambda>a. case a of
          Inl (L, pw, object, vs, ts, ms) \<Rightarrow> 2 * size object
        | Inr (L, w, objects, vs, ts, ms) \<Rightarrow> 2 * size_list size objects + 1)", goal_cases)
  case 1
  show ?case by simp
next
  case (2 L parentWorld object vertices triangles materials x xa y xb)
  have "size_list size (obj_children (updateMatrixWorld L parentWorld object)) < size object"
    by (cases object) (simp add: Let_def size_list_conv_sum_list comp_def less_Suc_eq_le
         sum_list_mono)
  with 2 show ?case by simp
next
  case 3
  show ?case by simp
next
  case 4
  show ?case by simp
qed

declare processObject.simps [simp del]

text \<open>
  Lines 110-112: the color printer of this exporter, which prints the channels as
  they are. \<open>Number::toString(16)\<close> of a number that is not integral is the runtime's.
\<close>

definition channelToString :: "('t, 'm) runtime \<Rightarrow> number \<Rightarrow> string" where
  "channelToString L v =
     (if v = of_int \<lfloor>v\<rfloor> then intToString 16 \<lfloor>v\<rfloor> else toStringFraction L 16 v)"

definition rgbToHexColor_merged :: "('t, 'm) runtime \<Rightarrow> Color \<Rightarrow> string" where
  "rgbToHexColor_merged L color =
     ''#'' @ padStart 2 (CHR ''0'') (channelToString L (color_r color)) @
     padStart 2 (CHR ''0'') (channelToString L (color_g color)) @
     padStart 2 (CHR ''0'') (channelToString L (color_b color))"

text \<open>Lines 36-105: the object literal \<open>model\<close> and the file built from it.\<close>

definition mergedIndexValue :: "nat option \<Rightarrow> jsvalue" where
  "mergedIndexValue v = (case v of None \<Rightarrow> JNaN | Some n \<Rightarrow> JNumber n)"

definition mergedTriangleEntry :: "MergedTriangle \<Rightarrow> jsvalue" where
  "mergedTriangleEntry t =
     JObject ([(''@_v1'', mergedIndexValue (mt_v1 t)),
               (''@_v2'', mergedIndexValue (mt_v2 t)),
               (''@_v3'', mergedIndexValue (mt_v3 t))] @
              (case mt_pid t of
                 Some pid \<Rightarrow> [(''@_pid'', JString ''0''), (''@_p1'', JNumber pid)]
               | None \<Rightarrow> []))"

definition mergedModel ::
  "('t, 'm) runtime \<Rightarrow> Vector3 list \<Rightarrow> MergedTriangle list \<Rightarrow> MergedMaterialInfo list \<Rightarrow> jsvalue" where
  "mergedModel L vertices triangles materials =
     JObject [(''model'', JObject
       [(''@_unit'', JString ''millimeter''),
        (''@_xmlns'', JString ''http://schemas.microsoft.com/3dmanufacturing/core/2015/02''),
        (''resources'', JObject
          [(''basematerials'',
              (if length materials > 0
               then JObject
                 [(''@_id'', JString ''0''),
                  (''base'', JArray (map (\<lambda>m. JObject
                     [(''@_name'', JString (if mm_name m \<noteq> [] then mm_name m
                                            else ''color_'' @ natToString 10 (mm_id m))),
                      (''@_displaycolor'', JString (rgbToHexColor_merged L (mm_color m)))])
                     materials))]
               else JUndefined)),
           (''object'', JObject
             [(''@_id'', JString ''1''),
              (''@_type'', JString ''model''),
              (''mesh'', JObject
                [(''vertices'', JObject [(''vertex'', JArray (map (vertexEntry L) vertices))]),
                 (''triangles'', JObject
                    [(''triangle'', JArray (map mergedTriangleEntry triangles))])])])]),
        (''build'', JObject
          [(''item'', JObject
            [(''@_objectid'', JString ''1''),
             (''@_transform'', JString ''1 0 0 0 1 0 0 0 1 0 0 0'')])])])]"

definition createModelXML :: "('t, 'm) runtime \<Rightarrow> 'm option \<Rightarrow> ('t, 'm) Object3D \<Rightarrow> error + (('t, 'm) Object3D \<times> string)" where
  "createModelXML L parentWorld object =
     (case processObject L parentWorld object [] [] [] of
        Inl e \<Rightarrow> Inl e
      | Inr (object1, vertices, triangles, materials) \<Rightarrow>
          Inr (object1, xmlDeclaration @ xmlBuild L (mergedModel L vertices triangles materials)))"

definition contentTypesXML_merged :: string where
  "contentTypesXML_merged =
     ''<?xml version=\"1.0\" encoding=\"UTF-8\"?>\<newline>'' @
     ''<Types xmlns=\"http://schemas.openxmlformats.org/package/2006/content-types\">\<newline>'' @
     ''  <Default Extension=\"rels\" ContentType=\"application/vnd.openxmlformats-package.relationships+xml\" />\<newline>'' @
     ''  <Default Extension=\"model\" ContentType=\"application/vnd.ms-package.3dmanufacturing-3dmodel+xml\" />\<newline>'' @
     ''</Types>''"

definition relationshipsXML_merged :: string where
  "relationshipsXML_merged =
     ''<?xml version=\"1.0\" encoding=\"UTF-8\"?>\<newline>'' @
     ''<Relationships xmlns=\"http://schemas.openxmlformats.org/package/2006/relationships\">\<newline>'' @
     ''  <Relationship Target=\"/3D/3dmodel.model\" Id=\"rel0\" Type=\"http://schemas.microsoft.com/3dmanufacturing/2013/01/3dmodel\" />\<newline>'' @
     ''</Relationships>''"

text \<open>Lines 11-22.\<close>

definition exportTo3MF_merged ::
  "('t, 'm) runtime \<Rightarrow> 'm option \<Rightarrow> ('t, 'm) Object3D \<Rightarrow> error + (('t, 'm) Object3D \<times> archive)" where
  "exportTo3MF_merged L parentWorld object =
     (case createModelXML L parentWorld object of
        Inl e \<Rightarrow> Inl e
      | Inr (object1, modelData) \<Rightarrow>
          Inr (object1,
               zip_file ''3D/3dmodel.model'' modelData
                 (zip_file ''_rels/.rels'' relationshipsXML_merged
                   (zip_file ''[Content_Types].xml'' contentTypesXML_merged Map.empty))))"

section \<open>The text-templated exporter (part_002)\<close>

text \<open>
  \<open>exportTo3MF(meshes, scale = 1)\<close> takes the meshes themselves. Here a mesh is given by
  the scene graph it belongs to, from the root (the ancestor without parent) down, and by
  its path in it: the indices of the children to descend into; the meshes of a call
  belong to one scene graph, and a single mesh is the array of that mesh. Two elements of
  the array are the same object exactly when their paths are equal. An element that is
  no object (\<open>undefined\<close>) is a path that leads nowhere.
\<close>

fun nodeAt :: "nat list \<Rightarrow> ('t, 'm) Object3D \<Rightarrow> ('t, 'm) Object3D option" where
  "nodeAt [] object = Some object"
| "nodeAt (i # rest) object =
     (if i < length (obj_children object) then nodeAt rest (obj_children object ! i) else None)"

text \<open>
  \<open>mesh.updateWorldMatrix(true, false)\<close> of three.js on the node at a path. The call
  first makes the same call on the parent, hence on every ancestor from the root down.
  On each of these nodes \<open>updateMatrix()\<close> composes the local matrix from position,
  quaternion and scale and sets \<open>matrixWorldNeedsUpdate\<close>, and the world matrix becomes
  the parent's world matrix times the local matrix (the local matrix alone at the root).
  Children off the path are not visited.
\<close>

definition updateNode ::
  "('t, 'm) runtime \<Rightarrow> 'm option \<Rightarrow> ('t, 'm) Object3D \<Rightarrow> ('t, 'm) Object3D" where
  "updateNode L parentWorld object =
     (let m' = compose L (obj_transform object);
          w' = (case parentWorld of None \<Rightarrow> m' | Some q \<Rightarrow> multiplyMatrices L q m')
      in Object3D (obj_type object) (obj_name object) (obj_geometry object) (obj_material object)
           (obj_transform object) m' True w' (obj_children object))"

fun updateWorldMatrix ::
  "('t, 'm) runtime \<Rightarrow> 'm option \<Rightarrow> nat list \<Rightarrow> ('t, 'm) Object3D \<Rightarrow> ('t, 'm) Object3D" where
  "updateWorldMatrix L parentWorld [] object = updateNode L parentWorld object"
| "updateWorldMatrix L parentWorld (i # rest) object =
     (let object1 = updateNode L parentWorld object;
          children = obj_children object1
      in if i < length children
         then Object3D (obj_type object1) (obj_name object1) (obj_geometry object1)
                (obj_material object1) (obj_transform object1) (obj_matrix object1)
                (obj_matrixWorldNeedsUpdate object1) (obj_matrixWorld object1)
                (children[i := updateWorldMatrix L (Some (obj_matrixWorld object1)) rest
                                 (children ! i)])
         else object1)"

text \<open>Lines 171-179.\<close>

definition colorToHex :: "('t, 'm) runtime \<Rightarrow> Color \<Rightarrow> string" where
  "colorToHex L color = ''#'' @ getHexString L color"

definition colorsEqual :: "('t, 'm) runtime \<Rightarrow> Color \<Rightarrow> Color \<Rightarrow> bool" where
  "colorsEqual L color1 color2 \<longleftrightarrow> getHexString L color1 = getHexString L color2"

text \<open>
  Lines 25-58, the pass over the meshes that fills \<open>materialMap\<close> (the colors by id, in
  the order of insertion) and \<open>meshMaterialIds\<close> (the id of each mesh, the latest entry
  first). A material that is no \<open>MeshPhongMaterial\<close> is skipped with a warning. A
  \<open>MeshPhongMaterial\<close> without color makes \<open>getHexString\<close> raise, in \<open>colorsEqual\<close>
  or at the latest in \<open>colorToHex\<close> (line 68), before the scene is touched; the pass
  raises at once.
\<close>

fun collectMaterials ::
  "('t, 'm) runtime \<Rightarrow> ('t, 'm) Object3D \<Rightarrow> nat list list \<Rightarrow> (nat \<times> Color) list \<Rightarrow>
   (nat list \<times> nat) list \<Rightarrow> error + ((nat \<times> Color) list \<times> (nat list \<times> nat) list)" where
  "collectMaterials L scene [] materialMap meshMaterialIds = Inr (materialMap, meshMaterialIds)"
| "collectMaterials L scene (mesh # rest) materialMap meshMaterialIds =
     (case nodeAt mesh scene of
        None \<Rightarrow> Inl TypeError
      | Some node \<Rightarrow>
          (case obj_material node of
             None \<Rightarrow> collectMaterials L scene rest materialMap meshMaterialIds
           | Some material \<Rightarrow>
               if \<not> material_isMeshPhongMaterial material
               then collectMaterials L scene rest materialMap meshMaterialIds
               else (case material_color material of
                       None \<Rightarrow> Inl TypeError
                     | Some color \<Rightarrow>
                         (case find (\<lambda>(materialId, existingColor). colorsEqual L existingColor color)
                                 materialMap of
                            None \<Rightarrow>
                              (let newId = length materialMap + 1
                               in collectMaterials L scene rest (materialMap @ [(newId, color)])
                                    ((mesh, newId) # meshMaterialIds))
                          | Some (existingMaterialId, existingColor) \<Rightarrow>
                              collectMaterials L scene rest materialMap
                                ((mesh, existingMaterialId) # meshMaterialIds)))))"

text \<open>Lines 61-70: the head of the model file and the base materials.\<close>

definition templateHeader :: string where
  "templateHeader =
     ''<?xml version=\"1.0\" encoding=\"UTF-8\"?>\<newline>'' @
     ''<model unit=\"millimeter\" xmlns=\"http://schemas.microsoft.com/3dmanufacturing/core/2015/02\">\<newline>'' @
     ''  <resources>''"

definition baseLine :: "('t, 'm) runtime \<Rightarrow> nat \<times> Color \<Rightarrow> string" where
  "baseLine L entry =
     (case entry of (materialId, color) \<Rightarrow>
        ''      <base name=\"material_'' @ natToString 10 materialId @ ''\" displaycolor=\"'' @
        colorToHex L color @ ''\"/>'')"

text \<open>
  Lines 86-102: one line per point of the position attribute, from the point in world
  space scaled by \<open>scale\<close>.
\<close>

definition templateVertexLine :: "('t, 'm) runtime \<Rightarrow> number \<Rightarrow> 'm \<Rightarrow> Vector3 \<Rightarrow> string" where
  "templateVertexLine L scale worldMatrix p =
     (let vertex = applyMatrix4 L worldMatrix p;
          x = fmul L (vec_x vertex) scale;
          y = fmul L (vec_y vertex) scale;
          z = fmul L (vec_z vertex) scale
      in ''          <vertex x=\"'' @ toFixed L 6 x @ ''\" y=\"'' @ toFixed L 6 y @
         ''\" z=\"'' @ toFixed L 6 z @ ''\"/>'')"

definition templateVertices :: "('t, 'm) runtime \<Rightarrow> number \<Rightarrow> 'm \<Rightarrow> Vector3 list \<Rightarrow> string list" where
  "templateVertices L scale worldMatrix positions =
     [''        <vertices>''] @ map (templateVertexLine L scale worldMatrix) positions @
     [''        </vertices>'']"

text \<open>
  Lines 104-128: the two triangle loops are those of \<open>collectComponents\<close>, each triangle
  printed at once; an index read past the end prints as \<open>undefined\<close>.
\<close>

definition indexText :: "nat option \<Rightarrow> string" where
  "indexText v = (case v of None \<Rightarrow> ''undefined'' | Some k \<Rightarrow> natToString 10 k)"

definition templateTriangleLine :: "Triangle \<Rightarrow> string" where
  "templateTriangleLine t =
     ''          <triangle v1=\"'' @ indexText (tri_v1 t) @ ''\" v2=\"'' @ indexText (tri_v2 t) @
     ''\" v3=\"'' @ indexText (tri_v3 t) @ ''\"/>''"

definition templateTriangles :: "BufferGeometry \<Rightarrow> Vector3 list \<Rightarrow> string list" where
  "templateTriangles geometry positions =
     [''        <triangles>''] @
     map templateTriangleLine
       (case geometry_index geometry of
          Some indices \<Rightarrow> indexedTriangles indices 0
        | None \<Rightarrow> plainTriangles (length positions) 0) @
     [''        </triangles>'']"

definition objectHeader :: "nat \<Rightarrow> nat \<Rightarrow> string" where
  "objectHeader objectId materialId =
     ''    <object id=\"'' @ natToString 10 objectId @ ''\" type=\"model\" pid=\"1\" pindex=\"'' @
     intToString 10 (int materialId - 1) @ ''\">\<newline>'' @
     ''      <mesh>''"

text \<open>
  Lines 73-134, the loop over the meshes. It threads the scene, which
  \<open>updateWorldMatrix\<close> writes, the lines pushed so far and \<open>objectId\<close>. Reading
  \<open>positions.count\<close> of a missing position attribute raises.
\<close>

fun meshLoop ::
  "('t, 'm) runtime \<Rightarrow> number \<Rightarrow> (nat list \<times> nat) list \<Rightarrow> nat list list \<Rightarrow>
   ('t, 'm) Object3D \<Rightarrow> string list \<Rightarrow> nat \<Rightarrow>
   error + (('t, 'm) Object3D \<times> string list \<times> nat)" where
  "meshLoop L scale meshMaterialIds [] scene xmlBuilder objectId =
     Inr (scene, xmlBuilder, objectId)"
| "meshLoop L scale meshMaterialIds (mesh # rest) scene xmlBuilder objectId =
     (case nodeAt mesh scene of
        None \<Rightarrow> Inl TypeError
      | Some node \<Rightarrow>
          (let geometry = obj_geometry node;
               materialId = (case map_of meshMaterialIds mesh of Some k \<Rightarrow> k | None \<Rightarrow> 0);
               scene1 = updateWorldMatrix L None mesh scene;
               worldMatrix = (case nodeAt mesh scene1 of
                                Some node1 \<Rightarrow> obj_matrixWorld node1
                              | None \<Rightarrow> obj_matrixWorld node)
           in case attributes_position geometry of
                None \<Rightarrow> Inl TypeError
              | Some positions \<Rightarrow>
                  meshLoop L scale meshMaterialIds rest scene1
                    (xmlBuilder @ [objectHeader objectId materialId] @
                     templateVertices L scale worldMatrix positions @
                     templateTriangles geometry positions @
                     [''      </mesh>'', ''    </object>''])
                    (objectId + 1)))"

text \<open>Lines 136-146 and 152-163.\<close>

definition itemLine :: "nat \<Rightarrow> string" where
  "itemLine i =
     ''    <item objectid=\"'' @ natToString 10 i @ ''\" transform=\"1 0 0 0 1 0 0 0 1 0 0 0\"/>''"

definition contentTypesXML_template :: string where
  "contentTypesXML_template =
     ''<?xml version=\"1.0\" encoding=\"UTF-8\"?>\<newline>'' @
     ''<Types xmlns=\"http://schemas.openxmlformats.org/package/2006/content-types\">\<newline>'' @
     ''  <Default Extension=\"rels\" ContentType=\"application/vnd.openxmlformats-package.relationships+xml\" />\<newline>'' @
     ''  <Default Extension=\"model\" ContentType=\"application/vnd.ms-package.3dmanufacturing-3dmodel+xml\" />\<newline>'' @
     ''</Types>''"

definition relationshipsXML_template :: string where
  "relationshipsXML_template =
     ''<?xml version=\"1.0\" encoding=\"UTF-8\"?>\<newline>'' @
     ''<Relationships xmlns=\"http://schemas.openxmlformats.org/package/2006/relationships\">\<newline>'' @
     ''  <Relationship Target=\"/3D/3dmodel.model\" Id=\"rel0\" Type=\"http://schemas.microsoft.com/3dmanufacturing/2013/01/3dmodel\" />\<newline>'' @
     ''</Relationships>''"

text \<open>
  Lines 15-169. The lines of the model file after the loop over the meshes, and the
  call: it returns the scene as it leaves it, next to the archive.
\<close>

definition templateModel :: "string list \<Rightarrow> nat \<Rightarrow> string" where
  "templateModel xmlBuilder objectId =
     join ''\<newline>''
       (xmlBuilder @ [''  </resources>'', ''  <build>''] @ map itemLine [2 ..< objectId] @
        [''  </build>'', ''</model>''])"

definition exportTo3MF_template ::
  "('t, 'm) runtime \<Rightarrow> ('t, 'm) Object3D \<Rightarrow> nat list list \<Rightarrow> number \<Rightarrow>
   error + (('t, 'm) Object3D \<times> archive)" where
  "exportTo3MF_template L scene meshes scale =
     (case collectMaterials L scene meshes [] [] of
        Inl e \<Rightarrow> Inl e
      | Inr (materialMap, meshMaterialIds) \<Rightarrow>
          (let xmlBuilder = [templateHeader] @ [''    <basematerials id=\"1\">''] @
                 map (baseLine L) materialMap @ [''    </basematerials>'']
           in case meshLoop L scale meshMaterialIds meshes scene xmlBuilder 2 of
                Inl e \<Rightarrow> Inl e
              | Inr (scene1, xmlBuilder1, objectId) \<Rightarrow>
                  Inr (scene1,
                       zip_file ''_rels/.rels'' relationshipsXML_template
                         (zip_file ''[Content_Types].xml'' contentTypesXML_template
                           (zip_file ''3D/3dmodel.model'' (templateModel xmlBuilder1 objectId)
                              Map.empty)))))"

section \<open>The export buttons (ModelExporter.vue)\<close>

text \<open>
  Lines 22-68. Each handler returns at once when there is no model group, and hands the
  group to its exporter otherwise; it keeps the URL of a blob of the result, here the
  result itself. No handler looks into the group. The fourth one calls the
  slicer-compatible exporter.
\<close>

definition handleExportSTL :: "('t, 'm) runtime \<Rightarrow> ('t, 'm) Object3D option \<Rightarrow> string option" where
  "handleExportSTL L modelGroup =
     (case modelGroup of None \<Rightarrow> None | Some scene \<Rightarrow> Some (stlParse L scene))"

definition handleExportOBJ :: "('t, 'm) runtime \<Rightarrow> ('t, 'm) Object3D option \<Rightarrow> string option" where
  "handleExportOBJ L modelGroup =
     (case modelGroup of None \<Rightarrow> None | Some scene \<Rightarrow> Some (objParse L scene))"

definition handleExportGLTF :: "('t, 'm) runtime \<Rightarrow> ('t, 'm) Object3D option \<Rightarrow> string option" where
  "handleExportGLTF L modelGroup =
     (case modelGroup of None \<Rightarrow> None | Some scene \<Rightarrow> gltfParse L scene)"

definition handleExport3MF ::
  "('t, 'm) runtime \<Rightarrow> 'm option \<Rightarrow> ('t, 'm) Object3D option \<Rightarrow>
   error + (('t, 'm) Object3D \<times> archive) option" where
  "handleExport3MF L parentWorld modelGroup =
     (case modelGroup of
        None \<Rightarrow> Inr None
      | Some scene \<Rightarrow>
          (case exportTo3MF L parentWorld scene of
             Inl e \<Rightarrow> Inl e
           | Inr result \<Rightarrow> Inr (Some result)))"

section \<open>Notions the claims are stated with\<close>

text \<open>The value stored under a key of an object literal.\<close>

definition field :: "string \<Rightarrow> jsvalue \<Rightarrow> jsvalue option" where
  "field key v = (case v of JObject kvs \<Rightarrow> map_of kvs key | _ \<Rightarrow> None)"

fun path :: "string list \<Rightarrow> jsvalue \<Rightarrow> jsvalue option" where
  "path [] v = Some v"
| "path (key # keys) v = (case field key v of None \<Rightarrow> None | Some u \<Rightarrow> path keys u)"





text \<open>
  The scene with its caches erased: every local matrix and every world matrix replaced by
  \<open>d\<close>, every \<open>matrixWorldNeedsUpdate\<close> cleared. What is left is the tree, the types
  and names of the nodes, the geometries, the materials, and the positions, quaternions
  and scales.
\<close>

fun eraseCaches :: "'m \<Rightarrow> ('t, 'm) Object3D \<Rightarrow> ('t, 'm) Object3D" where
  "eraseCaches d (Object3D t n g mat p m f w cs) =
     Object3D t n g mat p d False d (map (eraseCaches d) cs)"






text \<open>A leaf has a position attribute.\<close>

definition hasPosition :: "'m leaf \<Rightarrow> bool" where
  "hasPosition leaf = (case leaf of (w, n, g, mat) \<Rightarrow> attributes_position g \<noteq> None)"

text \<open>
  The mesh body of the merged exporter run over a list of leaves; the re-basing of a
  triangle by a vertex offset; the validity of a merged triangle for a number of vertices,
  and of the input triangles of a leaf for the leaf.
\<close>

fun processLeaves ::
  "('t, 'm) runtime \<Rightarrow> 'm leaf list \<Rightarrow> Vector3 list \<Rightarrow> MergedTriangle list \<Rightarrow> MergedMaterialInfo list \<Rightarrow>
   error + (Vector3 list \<times> MergedTriangle list \<times> MergedMaterialInfo list)" where
  "processLeaves L [] vertices triangles materials = Inr (vertices, triangles, materials)"
| "processLeaves L ((w, n, g, mat) # rest) vertices triangles materials =
     (case processMesh L n w g mat vertices triangles materials of
        Inl e \<Rightarrow> Inl e
      | Inr (vertices1, triangles1, materials1) \<Rightarrow>
          processLeaves L rest vertices1 triangles1 materials1)"








text \<open>
  The nodes of a scene in depth-first pre-order, the children in their stored order; those
  of type \<open>Mesh\<close>; and what the mesh body reads of a node.
\<close>

fun preorder :: "('t, 'm) Object3D \<Rightarrow> ('t, 'm) Object3D list" where
  "preorder (Object3D t n g mat p m f w cs) =
     Object3D t n g mat p m f w cs # concat (map preorder cs)"

definition meshNodes :: "('t, 'm) Object3D \<Rightarrow> ('t, 'm) Object3D list" where
  "meshNodes scene = filter (\<lambda>object. obj_type object = ''Mesh'') (preorder scene)"

definition nodeLeaf :: "('t, 'm) Object3D \<Rightarrow> 'm leaf" where
  "nodeLeaf object =
     (obj_matrixWorld object, obj_name object, obj_geometry object, obj_material object)"

text \<open>
  An object of a model part has content when it holds a mesh or lists at least one
  component; the 3MF core specification asks for one of the two.
\<close>

definition objectHasContent :: "jsvalue \<Rightarrow> bool" where
  "objectHasContent object =
     (case field ''mesh'' object of
        Some mesh \<Rightarrow> True
      | None \<Rightarrow>
          (case path [''components'', ''component''] object of
             Some (JArray (component # components)) \<Rightarrow> True
           | Some (JObject component) \<Rightarrow> True
           | _ \<Rightarrow> False))"

section \<open>Example scenes\<close>

text \<open>
  The conversion of a color channel from sRGB to linear sRGB as three.js computes it
  (\<open>SRGBToLinear\<close> of its color management), on exact numbers.
\<close>

definition SRGBToLinear :: "number \<Rightarrow> number" where
  "SRGBToLinear c =
     (if c < 0.04045 then c * 0.0773993808 else (c * 0.9478672986 + 0.0521327014) powr 2.4)"

text \<open>
  The color \<open>#FFA500\<close> as \<open>Color.setStyle\<close> stores it, and the default gray as
  \<open>color.set(0x808080)\<close> stores it.
\<close>

definition orange :: Color where
  "orange = Color 1 (SRGBToLinear (165 / 255)) 0"

definition gray :: Color where
  "gray = Color (SRGBToLinear (128 / 255)) (SRGBToLinear (128 / 255)) (SRGBToLinear (128 / 255))"

text \<open>
  A runtime whose transforms and matrices are translations, with exact arithmetic for the
  product of two numbers and the color conversion above; \<open>getHexString\<close> is given on
  the two colors of the examples. Then the scene of the specification's scenario: a
  group of two unit squares colored \<open>#FFA500\<close>, the second translated by
  \<open>(10, 0, 0)\<close>. The cached matrices of the scene are stale on purpose.
\<close>

definition runtime0 :: "(Vector3, Vector3) runtime" where
  "runtime0 =
     \<lparr>compose = (\<lambda>p. p),
      multiplyMatrices = (\<lambda>a b. Vector3 (vec_x a + vec_x b) (vec_y a + vec_y b) (vec_z a + vec_z b)),
      applyMatrix4 = (\<lambda>a p. Vector3 (vec_x a + vec_x p) (vec_y a + vec_y p) (vec_z a + vec_z p)),
      toWorkingColorSpace = SRGBToLinear,
      getHexString = (\<lambda>c. if c = orange then ''ffa500'' else if c = gray then ''808080''
                            else ''000000''),
      stlParse = (\<lambda>scene. ''''),
      objParse = (\<lambda>scene. ''''),
      gltfParse = (\<lambda>scene. Some ''''),
      fmul = (\<lambda>a b. a * b),
      toStringLarge = (\<lambda>v. ''''),
      toStringFraction = (\<lambda>radix v. ''''),
      xmlBuild = (\<lambda>v. ''''),
      jsonStringify = (\<lambda>v. ''''),
      dateNow = '''',
      random16 = (\<lambda>k. 0)\<rparr>"

definition unitSquare :: BufferGeometry where
  "unitSquare =
     BufferGeometry (Some [Vector3 0 0 0, Vector3 1 0 0, Vector3 1 1 0, Vector3 0 1 0])
       (Some [0, 1, 2, 0, 2, 3])"

definition twoSquares :: "(Vector3, Vector3) Object3D" where
  "twoSquares =
     Object3D ''Group'' '''' (BufferGeometry None None) None
       (Vector3 0 0 0) (Vector3 1 1 1) True (Vector3 5 5 5)
       [Object3D ''Mesh'' ''A'' unitSquare (Some (Material True (Some orange)))
          (Vector3 0 0 0) (Vector3 0 0 0) False (Vector3 7 7 7) [],
        Object3D ''Mesh'' ''B'' unitSquare (Some (Material True (Some orange)))
          (Vector3 10 0 0) (Vector3 2 0 0) True (Vector3 0 0 0) []]"

definition orangeInfo :: MaterialInfo where
  "orangeInfo = \<lparr>mi_id = 0, mi_color = orange, mi_name = ''A_material'', mi_extruder = 1\<rparr>"

definition twoSquaresComponents :: "ComponentInfo list" where
  "twoSquaresComponents =
     [\<lparr>ci_id = 100,
       ci_vertices = [Vector3 0 0 0, Vector3 1 0 0, Vector3 1 1 0, Vector3 0 1 0],
       ci_triangles = [Triangle (Some 0) (Some 1) (Some 2), Triangle (Some 0) (Some 2) (Some 3)],
       ci_material = Some orangeInfo, ci_name = ''A''\<rparr>,
      \<lparr>ci_id = 101,
       ci_vertices = [Vector3 10 0 0, Vector3 11 0 0, Vector3 11 1 0, Vector3 10 1 0],
       ci_triangles = [Triangle (Some 0) (Some 1) (Some 2), Triangle (Some 0) (Some 2) (Some 3)],
       ci_material = Some orangeInfo, ci_name = ''B''\<rparr>]"


definition fourPoints :: BufferGeometry where
  "fourPoints =
     BufferGeometry (Some [Vector3 0 0 0, Vector3 1 0 0, Vector3 1 1 0, Vector3 0 1 0]) None"

definition looseMesh :: "(Vector3, Vector3) Object3D" where
  "looseMesh =
     Object3D ''Mesh'' ''loose'' fourPoints None (Vector3 0 0 0) (Vector3 0 0 0) False
       (Vector3 0 0 0) []"

definition hollowMesh :: "(Vector3, Vector3) Object3D" where
  "hollowMesh =
     Object3D ''Mesh'' ''hollow'' (BufferGeometry None None) None (Vector3 0 0 0) (Vector3 0 0 0)
       False (Vector3 0 0 0) []"



text \<open>
  The two squares as \<open>updateMatrixWorld(true)\<close> on the group leaves them, as the
  text-templated exporter leaves them when it is given the two meshes, and a group
  without children.
\<close>

definition twoSquaresFresh :: "(Vector3, Vector3) Object3D" where
  "twoSquaresFresh =
     Object3D ''Group'' '''' (BufferGeometry None None) None
       (Vector3 0 0 0) (Vector3 0 0 0) False (Vector3 0 0 0)
       [Object3D ''Mesh'' ''A'' unitSquare (Some (Material True (Some orange)))
          (Vector3 0 0 0) (Vector3 0 0 0) False (Vector3 0 0 0) [],
        Object3D ''Mesh'' ''B'' unitSquare (Some (Material True (Some orange)))
          (Vector3 10 0 0) (Vector3 10 0 0) False (Vector3 10 0 0) []]"


definition emptyGroup :: "(Vector3, Vector3) Object3D" where
  "emptyGroup =
     Object3D ''Group'' [] (BufferGeometry None None) None (Vector3 0 0 0) (Vector3 0 0 0) False
       (Vector3 0 0 0) []"

section \<open>Properties of the flattening and of the registry\<close>

lemma updateMatrixWorld_idem:
  "updateMatrixWorld L pw (updateMatrixWorld L pw object) = updateMatrixWorld L pw object"
proof (induction object arbitrary: pw)
  case (Object3D t n g mat p m f w cs)
  then show ?case by (simp add: Let_def)
qed

lemma worldLeaves_update:
  "worldLeaves L pw (updateMatrixWorld L q object) = worldLeaves L pw object"
proof (induction object arbitrary: pw q)
  case (Object3D t n g mat p m f w cs)
  then show ?case by (simp add: Let_def cong: map_cong)
qed

lemma collectLeaves_append:
  "collectLeaves L (xs @ ys) cs ms =
     (case collectLeaves L xs cs ms of Inl e \<Rightarrow> Inl e
      | Inr (cs1, ms1) \<Rightarrow> collectLeaves L ys cs1 ms1)"
  by (induction xs arbitrary: cs ms) (auto split: sum.splits)

lemma collect_char:
  "collectComponents L pw object cs ms =
     (case collectLeaves L (worldLeaves L pw object) cs ms of
        Inl e \<Rightarrow> Inl e
      | Inr (cs1, ms1) \<Rightarrow> Inr (updateMatrixWorld L pw object, cs1, ms1))"
  "forEachChild L w objects cs ms =
     (case collectLeaves L (concat (map (worldLeaves L (Some w)) objects)) cs ms of
        Inl e \<Rightarrow> Inl e
      | Inr (cs1, ms1) \<Rightarrow> Inr (map (updateMatrixWorld L (Some w)) objects, cs1, ms1))"
proof (induction L pw object cs ms and L w objects cs ms rule: collectComponents_forEachChild.induct)
  case (1 L parentWorld object components materials)
  obtain t n g mat p m f w0 kids where obj: "object = Object3D t n g mat p m f w0 kids"
    by (cases object)
  define W where "W = (case parentWorld of None \<Rightarrow> compose L p | Some q \<Rightarrow> multiplyMatrices L q (compose L p))"
  have upd: "updateMatrixWorld L parentWorld object =
      Object3D t n g mat p (compose L p) False W (map (updateMatrixWorld L (Some W)) kids)"
    by (simp add: obj W_def Let_def)
  have leaves: "worldLeaves L parentWorld object =
      (if t = ''Mesh'' then [(W, n, g, mat)] else []) @
      concat (map (worldLeaves L (Some W)) kids)"
    by (simp add: obj W_def Let_def)
  have IH: "forEachChild L W (map (updateMatrixWorld L (Some W)) kids) cs1 ms1 =
      (case collectLeaves L (concat (map (worldLeaves L (Some W)) kids)) cs1 ms1 of
         Inl e \<Rightarrow> Inl e
       | Inr (cs2, ms2) \<Rightarrow> Inr (map (updateMatrixWorld L (Some W)) kids, cs2, ms2))"
    if "(if t = ''Mesh'' then collectMesh L n W g mat components materials
         else Inr (components, materials)) = Inr (cs1, ms1)" for cs1 ms1
  proof -
    have "(if obj_type (updateMatrixWorld L parentWorld object) = ''Mesh''
           then collectMesh L (obj_name (updateMatrixWorld L parentWorld object))
                  (obj_matrixWorld (updateMatrixWorld L parentWorld object))
                  (obj_geometry (updateMatrixWorld L parentWorld object))
                  (obj_material (updateMatrixWorld L parentWorld object)) components materials
           else Inr (components, materials)) = Inr (cs1, ms1)"
      using that by (simp add: upd split: if_splits)
    from "1.IH" [OF refl this refl] show ?thesis
      by (simp add: upd comp_def worldLeaves_update updateMatrixWorld_idem split: sum.splits)
  qed
  show ?case
  proof (cases "if t = ''Mesh'' then collectMesh L n W g mat components materials
         else Inr (components, materials)")
    case (Inl e)
    then show ?thesis
      by (simp add: collectComponents.simps [of L parentWorld object] upd leaves
           collectLeaves_append split: if_splits)
  next
    case (Inr b)
    obtain cs1 ms1 where b: "b = (cs1, ms1)" by (cases b)
    from Inr b IH [of cs1 ms1] show ?thesis
      by (auto simp add: collectComponents.simps [of L parentWorld object] upd leaves
           collectLeaves_append split: if_splits sum.splits)
  qed
next
  case (2 L w components materials)
  show ?case by simp
next
  case (3 L w child rest components materials)
  show ?case
    using 3 by (auto simp: collectLeaves_append split: sum.splits)
qed

lemma sameColor_iff: "sameColor c m \<longleftrightarrow> mi_color m = c"
  by (auto simp: sameColor_def Color.expand)

lemma find_sameColor_None: "find (sameColor c) ms = None \<longleftrightarrow> c \<notin> set (map mi_color ms)"
  by (auto simp: find_None_iff sameColor_iff)

lemma find_sameColor_Some:
  "find (sameColor c) ms = Some m \<Longrightarrow> m \<in> set ms \<and> mi_color m = c"
  by (auto simp: find_Some_iff sameColor_iff)

lemma registerMaterial_known:
  assumes "c \<in> set (map mi_color ms)" and "registerMaterial n c ms = (m, ms')"
  shows "ms' = ms \<and> m \<in> set ms \<and> mi_color m = c"
proof -
  from assms(1) obtain e where e: "find (sameColor c) ms = Some e"
    using find_sameColor_None [of c ms] by (cases "find (sameColor c) ms") auto
  with assms(2) have "m = e" "ms' = ms" by (simp_all add: registerMaterial_def)
  with find_sameColor_Some [OF e] show ?thesis by simp
qed

lemma registerMaterial_new:
  assumes "c \<notin> set (map mi_color ms)" and "registerMaterial n c ms = (m, ms')"
  shows "ms' = ms @ [m] \<and> mi_id m = length ms \<and> mi_extruder m = length ms + 1 \<and> mi_color m = c"
proof -
  from assms(1) have "find (sameColor c) ms = None" using find_sameColor_None by blast
  with assms(2) show ?thesis by (auto simp: registerMaterial_def Let_def)
qed

lemma registerMaterial_colors:
  "registerMaterial n c ms = (m, ms') \<Longrightarrow>
   map mi_color ms' = insertNew (map mi_color ms) c \<and> m \<in> set ms' \<and> mi_color m = c \<and>
   (\<exists>zs. ms' = ms @ zs)"
  using registerMaterial_known [of c ms n m ms'] registerMaterial_new [of c ms n m ms']
  by (cases "c \<in> set (map mi_color ms)") (auto simp: insertNew_def)

lemma registerMaterial_tableOk:
  assumes "tableOk ms" and "registerMaterial n c ms = (m, ms')"
  shows "tableOk ms'"
proof (cases "c \<in> set (map mi_color ms)")
  case True
  with assms registerMaterial_known [OF True assms(2)] show ?thesis by simp
next
  case False
  from registerMaterial_new [OF False assms(2)] assms(1) False show ?thesis
    by (auto simp: tableOk_def nth_append less_Suc_eq)
qed

lemma collectMesh_Inr:
  assumes "collectMesh L n w g mat cs ms = Inr (cs', ms')"
  shows "\<exists>c ps. cs' = cs @ [c] \<and> attributes_position g = Some ps \<and>
           ci_id c = 100 + length cs \<and>
           ci_vertices c = map (applyMatrix4 L w) ps \<and>
           ci_triangles c = (case geometry_index g of
                               Some indexAttr \<Rightarrow> indexedTriangles indexAttr 0
                             | None \<Rightarrow> plainTriangles (length ps) 0) \<and>
           ci_name c = (if n \<noteq> [] then n else ''Default-'' @ natToString 10 (100 + length cs)) \<and>
           (case mat of
              None \<Rightarrow> ms' = ms \<and> ci_material c = None
            | Some m \<Rightarrow> \<exists>mi. registerMaterial n (materialColor L m) ms = (mi, ms') \<and>
                               ci_material c = Some mi)"
  using assms
  by (cases mat; cases "attributes_position g")
     (auto simp: collectMesh_def Let_def split: prod.splits)

lemma collectMesh_Inl:
  "collectMesh L n w g mat cs ms = Inl e \<longleftrightarrow> e = TypeError \<and> attributes_position g = None"
  by (cases e; cases "attributes_position g")
     (auto simp: collectMesh_def Let_def split: prod.splits)

lemma collectMesh_inv:
  assumes "collectMesh L n w g mat cs ms = Inr (cs', ms')" "tableOk ms" "materialsIn cs ms"
  shows "tableOk ms' \<and> materialsIn cs' ms' \<and> (\<exists>zs. ms' = ms @ zs) \<and>
         map mi_color ms' = foldl insertNew (map mi_color ms) (List.map_filter (leafColor L) [(w, n, g, mat)]) \<and>
         map (\<lambda>c. map_option mi_color (ci_material c)) cs' =
           map (\<lambda>c. map_option mi_color (ci_material c)) cs @ [leafColor L (w, n, g, mat)] \<and>
         map ci_vertices cs' = map ci_vertices cs @ [leafVertices L (w, n, g, mat)] \<and>
         map ci_id cs' = map ci_id cs @ [100 + length cs]"
proof -
  from collectMesh_Inr [OF assms(1)] obtain c ps where
    c: "cs' = cs @ [c]" "attributes_position g = Some ps" "ci_id c = 100 + length cs"
       "ci_vertices c = map (applyMatrix4 L w) ps"
    and m: "case mat of None \<Rightarrow> ms' = ms \<and> ci_material c = None
            | Some m \<Rightarrow> \<exists>mi. registerMaterial n (materialColor L m) ms = (mi, ms') \<and>
                               ci_material c = Some mi"
    by blast
  show ?thesis
  proof (cases mat)
    case None
    with m c assms(2,3) show ?thesis
      by (auto simp: materialsIn_def leafColor_def leafVertices_def List.map_filter_simps)
  next
    case (Some mt)
    with m obtain mi where mi: "registerMaterial n (materialColor L mt) ms = (mi, ms')"
      "ci_material c = Some mi" by auto
    from registerMaterial_colors [OF mi(1)] registerMaterial_tableOk [OF assms(2) mi(1)]
    show ?thesis using c mi(2) assms(3) Some
      by (auto simp: materialsIn_def leafColor_def leafVertices_def List.map_filter_simps)
  qed
qed

lemma collectLeaves_inv:
  assumes "collectLeaves L leaves cs ms = Inr (cs', ms')" "tableOk ms" "materialsIn cs ms"
  shows "tableOk ms' \<and> materialsIn cs' ms' \<and> (\<exists>zs. ms' = ms @ zs) \<and>
         map mi_color ms' = foldl insertNew (map mi_color ms) (List.map_filter (leafColor L) leaves) \<and>
         map (\<lambda>c. map_option mi_color (ci_material c)) cs' =
           map (\<lambda>c. map_option mi_color (ci_material c)) cs @ map (leafColor L) leaves \<and>
         map ci_vertices cs' = map ci_vertices cs @ map (leafVertices L) leaves \<and>
         map ci_id cs' = map ci_id cs @ map (\<lambda>i. 100 + length cs + i) [0 ..< length leaves]"
  using assms
proof (induction leaves arbitrary: cs ms)
  case Nil
  then show ?case by (simp add: List.map_filter_simps)
next
  case (Cons leaf leaves)
  obtain w n g mat where leaf: "leaf = (w, n, g, mat)" by (cases leaf)
  from Cons.prems(1) obtain cs1 ms1 where
    step: "collectMesh L n w g mat cs ms = Inr (cs1, ms1)"
    and rest: "collectLeaves L leaves cs1 ms1 = Inr (cs', ms')"
    by (auto simp: leaf split: sum.splits)
  note s = collectMesh_inv [OF step Cons.prems(2,3)]
  from s have len: "length cs1 = Suc (length cs)"
    by (metis length_append_singleton length_map)
  from s have ok1: "tableOk ms1" "materialsIn cs1 ms1" by simp_all
  note r = Cons.IH [OF rest ok1]
  have upt: "map (\<lambda>i. 100 + length cs + i) [0 ..< length (leaf # leaves)] =
      (100 + length cs) # map (\<lambda>i. 100 + Suc (length cs) + i) [0 ..< length leaves]"
    by (simp add: upt_conv_Cons map_Suc_upt [symmetric] del: upt_Suc)
  show ?case
    using s r unfolding leaf [symmetric] len upt
    by (auto simp: List.map_filter_simps split: option.splits)
qed

text \<open>The slicer-compatible exporter on the two squares.\<close>

lemmas eval_defs = collectComponents.simps collectMesh_def registerMaterial_def
  materialColor_def sameColor_def Let_def indexedTriangles.simps plainTriangles.simps getX_def
  natToString.simps digitChar_def

lemma twoSquares_run:
  "collectComponents runtime0 None twoSquares [] [] =
     Inr (updateMatrixWorld runtime0 None twoSquares, twoSquaresComponents, [orangeInfo])"
  by (simp add: eval_defs twoSquares_def runtime0_def orange_def unitSquare_def
        twoSquaresComponents_def orangeInfo_def)

section \<open>Claims\<close>

text \<open>
  C1. The material registry deduplicates colors by equality of the three channels. After
  \<open>collectComponents\<close> on any scene, from empty lists: no two entries of the material
  table have the same color; the entry at index \<open>i\<close> has id \<open>i\<close> and extruder \<open>i + 1\<close>;
  the table lists the colors of the leaves in the order of their first appearance; there is
  one component per leaf, and two leaves with the same color carry the same table entry
  (hence the same id). One registration step returns the existing entry of a known color
  and leaves the table as it is, and appends an entry with \<open>id = table.length\<close> and
  \<open>extruder = table.length + 1\<close> for a new color.
\<close>

theorem material_registry_dedup:
  assumes "collectComponents L pw scene [] [] = Inr (scene', components, materials)"
  shows "distinct (map mi_color materials) \<and>
         (\<forall>i<length materials. mi_id (materials ! i) = i \<and> mi_extruder (materials ! i) = i + 1) \<and>
         map mi_color materials =
           foldl insertNew [] (List.map_filter (leafColor L) (worldLeaves L pw scene)) \<and>
         length components = length (worldLeaves L pw scene) \<and>
         (\<forall>i<length components. \<forall>j<length components. \<forall>c.
            leafColor L (worldLeaves L pw scene ! i) = Some c \<longrightarrow>
            leafColor L (worldLeaves L pw scene ! j) = Some c \<longrightarrow>
            (\<exists>m\<in>set materials. mi_color m = c \<and> ci_material (components ! i) = Some m \<and>
               ci_material (components ! j) = Some m)) \<and>
         (\<forall>n c ms m ms'. registerMaterial n c ms = (m, ms') \<longrightarrow>
            (if c \<in> set (map mi_color ms) then ms' = ms \<and> m \<in> set ms \<and> mi_color m = c
             else ms' = ms @ [m] \<and> mi_id m = length ms \<and> mi_extruder m = length ms + 1 \<and>
                  mi_color m = c))"
proof -
  let ?leaves = "worldLeaves L pw scene"
  from assms have run: "collectLeaves L ?leaves [] [] = Inr (components, materials)"
    by (simp add: collect_char split: sum.splits prod.splits)
  have "tableOk []" "materialsIn [] []" by (simp_all add: tableOk_def materialsIn_def)
  note inv = collectLeaves_inv [OF run this]
  from inv have ok: "tableOk materials" and mem: "materialsIn components materials"
    and order: "map mi_color materials = foldl insertNew [] (List.map_filter (leafColor L) ?leaves)"
    and cols: "map (\<lambda>c. map_option mi_color (ci_material c)) components = map (leafColor L) ?leaves"
    by simp_all
  from cols have len: "length components = length ?leaves"
    by (metis length_map)
  have same: "\<exists>m\<in>set materials. mi_color m = c \<and> ci_material (components ! i) = Some m \<and>
               ci_material (components ! j) = Some m"
    if i: "i < length components" and j: "j < length components"
      and ci: "leafColor L (?leaves ! i) = Some c" and cj: "leafColor L (?leaves ! j) = Some c"
    for i j c
  proof -
    have "map_option mi_color (ci_material (components ! i)) = Some c"
      using arg_cong [OF cols, of "\<lambda>xs. xs ! i"] i ci len by simp
    then obtain m1 where m1: "ci_material (components ! i) = Some m1" "mi_color m1 = c" by auto
    have "map_option mi_color (ci_material (components ! j)) = Some c"
      using arg_cong [OF cols, of "\<lambda>xs. xs ! j"] j cj len by simp
    then obtain m2 where m2: "ci_material (components ! j) = Some m2" "mi_color m2 = c" by auto
    from mem m1 m2 i j have in1: "m1 \<in> set materials" and in2: "m2 \<in> set materials"
      by (auto simp: materialsIn_def)
    from ok have "inj_on mi_color (set materials)"
      by (simp add: tableOk_def distinct_map)
    with in1 in2 m1(2) m2(2) have "m1 = m2" by (auto dest: inj_onD)
    with m1 m2 in1 show ?thesis by auto
  qed
  have reg: "if c \<in> set (map mi_color ms) then ms' = ms \<and> m \<in> set ms \<and> mi_color m = c
     else ms' = ms @ [m] \<and> mi_id m = length ms \<and> mi_extruder m = length ms + 1 \<and> mi_color m = c"
    if "registerMaterial n c ms = (m, ms')" for n c ms m ms'
    using registerMaterial_known [OF _ that] registerMaterial_new [OF _ that] by auto
  from ok order len same reg show ?thesis
    unfolding tableOk_def by blast
qed

theorem material_registry_dedup_witness:
  "collectComponents runtime0 None twoSquares [] [] =
     Inr (updateMatrixWorld runtime0 None twoSquares, twoSquaresComponents, [orangeInfo]) \<and>
   map mi_color [orangeInfo] = [orange] \<and>
   mi_id ([orangeInfo] ! 0) = 0 \<and> mi_extruder ([orangeInfo] ! 0) = 1 \<and>
   length twoSquaresComponents = 2 \<and>
   ci_material (twoSquaresComponents ! 0) = ci_material (twoSquaresComponents ! 1)"
  using material_registry_dedup [OF twoSquares_run] twoSquares_run
  by (simp add: twoSquaresComponents_def orangeInfo_def)

lemma collectLeaves_Inl:
  "collectLeaves L leaves cs ms = Inl e \<longleftrightarrow> e = TypeError \<and> \<not> list_all hasPosition leaves"
proof (induction leaves arbitrary: cs ms)
  case Nil
  show ?case by simp
next
  case (Cons leaf leaves)
  obtain w n g mat where leaf: "leaf = (w, n, g, mat)" by (cases leaf)
  show ?case
  proof (cases "collectMesh L n w g mat cs ms")
    case (Inl e')
    then show ?thesis
      using collectMesh_Inl [of L n w g mat cs ms e'] by (auto simp: leaf hasPosition_def)
  next
    case (Inr b)
    obtain cs1 ms1 where b: "b = (cs1, ms1)" by (cases b)
    from Inr b collectMesh_Inr [of L n w g mat cs ms cs1 ms1]
    have "attributes_position g \<noteq> None" by auto
    with Inr b Cons.IH [of cs1 ms1] show ?thesis
      by (simp add: leaf hasPosition_def)
  qed
qed

lemma exportTo3MF_Inl:
  "exportTo3MF L pw object = Inl e \<longleftrightarrow>
     e = TypeError \<and> \<not> list_all hasPosition (worldLeaves L pw object)"
  using collectLeaves_Inl [of L "worldLeaves L pw object" "[]" "[]" e]
  by (auto simp: exportTo3MF_def collect_char split: sum.splits)

lemma dom_packageFiles:
  "dom (packageFiles L cs ms) =
     {''[Content_Types].xml'', ''_rels/.rels'', ''3D/3dmodel.model'',
      ''3D/_rels/3dmodel.model.rels'', ''3D/Objects/object-97.model'',
      ''Metadata/model_settings.config'', ''Metadata/project_settings.config''}"
  by (auto simp: packageFiles_def zip_file_def Let_def)

lemma packageFiles_lookup:
  "packageFiles L cs ms ''[Content_Types].xml'' = Some contentTypesXML"
  "packageFiles L cs ms ''_rels/.rels'' = Some relationshipsXML"
  "packageFiles L cs ms ''3D/3dmodel.model'' = Some (createMainModelXML L cs)"
  "packageFiles L cs ms ''3D/_rels/3dmodel.model.rels'' = Some objectRelationshipsXML"
  "packageFiles L cs ms ''3D/Objects/object-97.model'' = Some (createObjectModelXML L cs)"
  "packageFiles L cs ms ''Metadata/model_settings.config'' = Some (createModelSettingsXML cs)"
  "packageFiles L cs ms ''Metadata/project_settings.config'' =
     Some (createProjectSettingsConfig L ms)"
  by (simp_all add: packageFiles_def zip_file_def Let_def)

text \<open>
  C2. Every call of the slicer-compatible exporter either raises the \<open>TypeError\<close> of a
  mesh without position attribute, and produces nothing, or produces an archive with the
  entries \<open>[Content_Types].xml\<close>, \<open>_rels/.rels\<close>, the model part \<open>3D/3dmodel.model\<close>,
  its relationships file \<open>3D/_rels/3dmodel.model.rels\<close>,
  \<open>Metadata/model_settings.config\<close> and \<open>Metadata/project_settings.config\<close> (and the
  object part \<open>3D/Objects/object-97.model\<close>), each with the content the exporter
  generates for the components and materials it collected.
\<close>

theorem archive_required_entries:
  "(case exportTo3MF L pw object of
      Inl e \<Rightarrow> e = TypeError \<and> \<not> list_all hasPosition (worldLeaves L pw object)
    | Inr (object1, z) \<Rightarrow>
        list_all hasPosition (worldLeaves L pw object) \<and>
        {''[Content_Types].xml'', ''_rels/.rels'', ''3D/3dmodel.model'',
         ''3D/_rels/3dmodel.model.rels'', ''Metadata/model_settings.config'',
         ''Metadata/project_settings.config''} \<subseteq> dom z \<and>
        z ''[Content_Types].xml'' = Some contentTypesXML \<and>
        z ''_rels/.rels'' = Some relationshipsXML \<and>
        z ''3D/_rels/3dmodel.model.rels'' = Some objectRelationshipsXML \<and>
        (\<exists>components materials.
           collectComponents L pw object [] [] = Inr (object1, components, materials) \<and>
           z ''3D/3dmodel.model'' = Some (createMainModelXML L components) \<and>
           z ''3D/Objects/object-97.model'' = Some (createObjectModelXML L components) \<and>
           z ''Metadata/model_settings.config'' = Some (createModelSettingsXML components) \<and>
           z ''Metadata/project_settings.config'' =
             Some (createProjectSettingsConfig L materials)))"
proof (cases "exportTo3MF L pw object")
  case (Inl e)
  then show ?thesis using exportTo3MF_Inl [of L pw object e] by simp
next
  case (Inr b)
  obtain object1 z where b: "b = (object1, z)" by (cases b)
  from Inr b obtain components materials where
    run: "collectComponents L pw object [] [] = Inr (object1, components, materials)"
    and zeq: "z = packageFiles L components materials"
    by (auto simp: exportTo3MF_def split: sum.splits)
  have "list_all hasPosition (worldLeaves L pw object)"
    using exportTo3MF_Inl [of L pw object TypeError] Inr by auto
  with Inr b run show ?thesis
    by (simp add: zeq dom_packageFiles packageFiles_lookup)
qed


lemma exportTo3MF_twoSquares:
  "exportTo3MF runtime0 None twoSquares =
     Inr (updateMatrixWorld runtime0 None twoSquares,
          packageFiles runtime0 twoSquaresComponents [orangeInfo])"
  by (simp add: exportTo3MF_def twoSquares_run)

theorem archive_required_entries_witness:
  "list_all hasPosition (worldLeaves runtime0 None twoSquares) \<and>
   (\<exists>object1 z. exportTo3MF runtime0 None twoSquares = Inr (object1, z) \<and>
      {''[Content_Types].xml'', ''_rels/.rels'', ''3D/3dmodel.model'',
       ''3D/_rels/3dmodel.model.rels'', ''Metadata/model_settings.config'',
       ''Metadata/project_settings.config''} \<subseteq> dom z)"
  using archive_required_entries [of runtime0 None twoSquares]
  by (simp add: exportTo3MF_twoSquares)

lemma padColors_eq: "padColors colors = colors @ replicate (2 - length colors) ''#FFFFFF''"
proof -
  consider "length colors = 0" | "length colors = 1" | "2 \<le> length colors" by linarith
  then show ?thesis
  proof cases
    case 1
    then show ?thesis
      by (simp add: padColors.simps [of "[]"] padColors.simps [of "[''#FFFFFF'']"]
            padColors.simps [of "[''#FFFFFF'', ''#FFFFFF'']"] numeral_2_eq_2)
  next
    case 2
    then obtain c where "colors = [c]" by (cases colors) auto
    then show ?thesis
      by (simp add: padColors.simps [of "[c]"] padColors.simps [of "[c, ''#FFFFFF'']"])
  next
    case 3
    then show ?thesis by (simp add: padColors.simps [of colors])
  qed
qed

lemma filament_colour_field:
  "field ''filament_colour'' (projectSettings L materials) =
     Some (JArray (map JString
       (map (\<lambda>m. rgbToHexColor L (mi_color m)) materials @
        replicate (2 - length materials) ''#FFFFFF'')))"
  by (simp add: field_def projectSettings_def Let_def padColors_eq)

lemma powr_bounds:
  fixes x a b :: real
  assumes "0 < x" "0 \<le> b" "a ^ 5 \<le> x ^ 12" "x ^ 12 < b ^ 5"
  shows "a \<le> x powr (12 / 5) \<and> x powr (12 / 5) < b"
proof -
  let ?y = "x powr (12 / 5)"
  have "?y ^ 5 = x powr (real 5 * (12 / 5))"
    using assms(1) by (intro powr_power) simp
  also have "\<dots> = x powr (real 12)" by simp
  also have "\<dots> = x ^ 12" using assms(1) by (rule powr_realpow)
  finally have y: "?y ^ 5 = x ^ 12" .
  have lower: "a \<le> ?y"
  proof (rule ccontr)
    assume "\<not> a \<le> ?y"
    then have "?y ^ 5 < a ^ 5" by (intro power_strict_mono) simp_all
    with assms(3) y show False by simp
  qed
  have upper: "?y < b"
  proof (rule ccontr)
    assume "\<not> ?y < b"
    then have "b ^ 5 \<le> ?y ^ 5" using assms(2) by (intro power_mono) simp_all
    with assms(4) y show False by simp
  qed
  from lower upper show ?thesis by simp
qed

lemma SRGBToLinear_orange:
  "191 / 510 \<le> SRGBToLinear (165 / 255) \<and> SRGBToLinear (165 / 255) < 193 / 510"
proof -
  have "(191 / 510 :: real) \<le> (28281990521 / 42500000000) powr (12 / 5) \<and>
        (28281990521 / 42500000000 :: real) powr (12 / 5) < 193 / 510"
    by (rule powr_bounds) (simp_all add: power_divide field_simps)
  then show ?thesis by (simp add: SRGBToLinear_def)
qed

lemma SRGBToLinear_gray:
  "109 / 510 \<le> SRGBToLinear (128 / 255) \<and> SRGBToLinear (128 / 255) < 111 / 510"
proof -
  have "(109 / 510 :: real) \<le> (224368088463 / 425000000000) powr (12 / 5) \<and>
        (224368088463 / 425000000000 :: real) powr (12 / 5) < 111 / 510"
    by (rule powr_bounds) (simp_all add: power_divide field_simps)
  then show ?thesis by (simp add: SRGBToLinear_def)
qed

lemma SRGBToLinear_ends: "SRGBToLinear 0 = 0" "SRGBToLinear 1 = 1"
  by (simp_all add: SRGBToLinear_def)

lemma Math_round_orange: "Math_round (SRGBToLinear (165 / 255) * 255) = 96"
  unfolding Math_round_def
  using SRGBToLinear_orange by (intro floor_unique) (simp_all add: field_simps)

lemma Math_round_gray: "Math_round (SRGBToLinear (128 / 255) * 255) = 55"
  unfolding Math_round_def
  using SRGBToLinear_gray by (intro floor_unique) (simp_all add: field_simps)

lemma natToString_hex:
  "natToString 16 255 = ''ff''" "natToString 16 96 = ''60''" "natToString 16 55 = ''37''"
  "natToString 16 0 = ''0''"
  by (simp_all add: natToString.simps digitChar_def)

lemma rgbToHexColor_orange: "rgbToHexColor runtime0 orange = ''#ff6000''"
proof -
  have r: "Math_round (fmul runtime0 1 255) = 255"
    and b: "Math_round (fmul runtime0 0 255) = 0"
    by (simp_all add: runtime0_def Math_round_def)
  have g: "Math_round (fmul runtime0 (SRGBToLinear (165 / 255)) 255) = 96"
    using Math_round_orange by (simp add: runtime0_def)
  show ?thesis
    unfolding rgbToHexColor_def orange_def Color.sel Let_def r g b
    by (simp add: intToString_def padStart_def natToString_hex)
qed

lemma rgbToHexColor_gray: "rgbToHexColor runtime0 gray = ''#373737''"
proof -
  have g: "Math_round (fmul runtime0 (SRGBToLinear (128 / 255)) 255) = 55"
    using Math_round_gray by (simp add: runtime0_def)
  show ?thesis
    unfolding rgbToHexColor_def gray_def Color.sel Let_def g
    by (simp add: intToString_def padStart_def natToString_hex)
qed

lemma Color_setHex_orange: "Color_setHex runtime0 16753920 = orange"
  by (simp add: Color_setHex_def orange_def runtime0_def SRGBToLinear_ends)

lemma Color_setHex_gray: "Color_setHex runtime0 8421504 = gray"
  by (simp add: Color_setHex_def gray_def runtime0_def)

lemma twoSquares_update: "updateMatrixWorld runtime0 None twoSquares = twoSquaresFresh"
  by (simp add: twoSquares_def twoSquaresFresh_def runtime0_def Let_def)

text \<open>
  C3 (a defect of the code). The scenario of the claim, run: the leaves of the two
  squares all carry the color \<open>#FFA500\<close>, as \<open>Color.setStyle\<close> stores it. The export
  registers one material of that color, and the project settings of the archive list two
  filament colors, of which the second is the padding \<open>#FFFFFF\<close>; but the first is
  printed as \<open>#ff6000\<close>: \<open>rgbToHexColor\<close> prints the channels of the working color
  space, multiplied by 255, where the color is \<open>#FFA500\<close> in sRGB. In the same way the
  default gray \<open>0x808080\<close> is printed as \<open>#373737\<close>.
\<close>

theorem filament_colour_printed_linear:
  "Color_setHex runtime0 16753920 = orange \<and>
   map (leafColor runtime0) (worldLeaves runtime0 None twoSquares) = [Some orange, Some orange] \<and>
   exportTo3MF runtime0 None twoSquares =
     Inr (twoSquaresFresh, packageFiles runtime0 twoSquaresComponents [orangeInfo]) \<and>
   packageFiles runtime0 twoSquaresComponents [orangeInfo] ''Metadata/project_settings.config'' =
     Some (jsonStringify runtime0 (projectSettings runtime0 [orangeInfo])) \<and>
   field ''filament_colour'' (projectSettings runtime0 [orangeInfo]) =
     Some (JArray [JString ''#ff6000'', JString ''#FFFFFF'']) \<and>
   rgbToHexColor runtime0 (Color_setHex runtime0 16753920) = ''#ff6000'' \<and>
   rgbToHexColor runtime0 (Color_setHex runtime0 8421504) = ''#373737''"
proof -
  have leaves: "map (leafColor runtime0) (worldLeaves runtime0 None twoSquares) =
      [Some orange, Some orange]"
    by (simp add: twoSquares_def leafColor_def materialColor_def Let_def)
  have col: "field ''filament_colour'' (projectSettings runtime0 [orangeInfo]) =
      Some (JArray [JString ''#ff6000'', JString ''#FFFFFF''])"
    by (simp add: filament_colour_field orangeInfo_def rgbToHexColor_orange)
  from leaves col show ?thesis
    by (simp add: Color_setHex_orange Color_setHex_gray rgbToHexColor_orange rgbToHexColor_gray
          exportTo3MF_twoSquares twoSquares_update packageFiles_lookup
          createProjectSettingsConfig_def)
qed

lemma collectMesh_total:
  assumes "attributes_position g = Some ps"
  shows "\<exists>c ms'. collectMesh L n w g mat cs ms = Inr (cs @ [c], ms') \<and>
           ci_vertices c = map (applyMatrix4 L w) ps \<and>
           ci_triangles c = (case geometry_index g of
                               Some indexAttr \<Rightarrow> indexedTriangles indexAttr 0
                             | None \<Rightarrow> plainTriangles (length ps) 0) \<and>
           (case mat of
              None \<Rightarrow> ms' = ms \<and> ci_material c = None
            | Some m \<Rightarrow> \<exists>mi. registerMaterial n (materialColor L m) ms = (mi, ms') \<and>
                               ci_material c = Some mi)"
proof (cases "collectMesh L n w g mat cs ms")
  case (Inl e)
  with collectMesh_Inl [of L n w g mat cs ms e] assms show ?thesis by simp
next
  case (Inr b)
  obtain cs' ms' where "b = (cs', ms')" by (cases b)
  with Inr collectMesh_Inr [of L n w g mat cs ms cs' ms'] assms show ?thesis by auto
qed








lemma length_indexedTriangles:
  "length (indexedTriangles arr i) = (length arr - i + 2) div 3"
proof (induction arr i rule: indexedTriangles.induct)
  case (1 arr i)
  show ?case
  proof (cases "i < length arr")
    case True
    then have "Suc ((length arr - (i + 3) + 2) div 3) = (length arr - i + 2) div 3"
      by presburger
    with True "1.IH" show ?thesis
      by (subst indexedTriangles.simps) simp
  next
    case False
    then show ?thesis by (subst indexedTriangles.simps) simp
  qed
qed


lemma length_plainTriangles:
  "length (plainTriangles count i) = (count - i + 2) div 3"
proof (induction count i rule: plainTriangles.induct)
  case (1 count i)
  show ?case
  proof (cases "i < count")
    case True
    then have "Suc ((count - (i + 3) + 2) div 3) = (count - i + 2) div 3"
      by presburger
    with True "1.IH" show ?thesis
      by (subst plainTriangles.simps) simp
  next
    case False
    then show ?thesis by (subst plainTriangles.simps) simp
  qed
qed

lemma collectLeaves_total:
  assumes "list_all hasPosition leaves"
  shows "\<exists>cs' ms'. collectLeaves L leaves cs ms = Inr (cs', ms')"
proof (cases "collectLeaves L leaves cs ms")
  case (Inl e)
  with collectLeaves_Inl [of L leaves cs ms e] assms show ?thesis by simp
next
  case (Inr b)
  then show ?thesis by (cases b) simp
qed

text \<open>
  C5 (amended). A mesh leaf whose position attribute is empty and which has no index
  yields a record with zero vertices and zero triangles, without an error. A leaf whose
  position attribute is missing makes the body raise a \<open>TypeError\<close>, and the export of a
  scene with such a leaf fails with it. A leaf with a position attribute is never
  skipped, whatever its counts: its record has one vertex per point and
  \<open>(count + 2) div 3\<close> triangles, where \<open>count\<close> is the length of the index if there is
  one and the number of points otherwise; and when every leaf has a position attribute
  the export collects one record per leaf.
\<close>

theorem geometry_edge_cases:
  "(attributes_position g = Some [] \<and> geometry_index g = None \<longrightarrow>
      (\<exists>c ms'. collectMesh L n w g mat cs ms = Inr (cs @ [c], ms') \<and>
         ci_vertices c = [] \<and> ci_triangles c = [])) \<and>
   (attributes_position g = None \<longrightarrow> collectMesh L n w g mat cs ms = Inl TypeError) \<and>
   (\<not> list_all hasPosition (worldLeaves L pw scene) \<longrightarrow>
      exportTo3MF L pw scene = Inl TypeError) \<and>
   (\<forall>ps. attributes_position g = Some ps \<longrightarrow>
      (\<exists>c ms'. collectMesh L n w g mat cs ms = Inr (cs @ [c], ms') \<and>
         length (ci_vertices c) = length ps \<and>
         length (ci_triangles c) =
           ((case geometry_index g of Some arr \<Rightarrow> length arr | None \<Rightarrow> length ps) + 2) div 3)) \<and>
   (list_all hasPosition (worldLeaves L pw scene) \<longrightarrow>
      (\<exists>scene' components materials.
         collectComponents L pw scene [] [] = Inr (scene', components, materials) \<and>
         length components = length (worldLeaves L pw scene)))"
proof -
  have a: "\<exists>c ms'. collectMesh L n w g mat cs ms = Inr (cs @ [c], ms') \<and>
         length (ci_vertices c) = length ps \<and>
         length (ci_triangles c) =
           ((case geometry_index g of Some arr \<Rightarrow> length arr | None \<Rightarrow> length ps) + 2) div 3"
    if "attributes_position g = Some ps" for ps
    using collectMesh_total [OF that, of L n w mat cs ms]
    by (auto simp: length_indexedTriangles length_plainTriangles split: option.splits)
  have b: "\<exists>c ms'. collectMesh L n w g mat cs ms = Inr (cs @ [c], ms') \<and>
         ci_vertices c = [] \<and> ci_triangles c = []"
    if "attributes_position g = Some []" "geometry_index g = None"
    using collectMesh_total [OF that(1), of L n w mat cs ms] that(2)
    by (auto simp: plainTriangles.simps [of 0 0])
  have c: "collectMesh L n w g mat cs ms = Inl TypeError" if "attributes_position g = None"
    using that collectMesh_Inl [of L n w g mat cs ms TypeError] by simp
  have d: "exportTo3MF L pw scene = Inl TypeError"
    if "\<not> list_all hasPosition (worldLeaves L pw scene)"
    using that exportTo3MF_Inl [of L pw scene TypeError] by simp
  have e: "\<exists>scene' components materials.
         collectComponents L pw scene [] [] = Inr (scene', components, materials) \<and>
         length components = length (worldLeaves L pw scene)"
    if "list_all hasPosition (worldLeaves L pw scene)"
  proof -
    from collectLeaves_total [OF that, of L "[]" "[]"] obtain components materials where
      run: "collectLeaves L (worldLeaves L pw scene) [] [] = Inr (components, materials)"
      by blast
    have "tableOk []" "materialsIn [] []" by (simp_all add: tableOk_def materialsIn_def)
    from collectLeaves_inv [OF run this]
    have "map ci_vertices components = map (leafVertices L) (worldLeaves L pw scene)" by simp
    then have "length components = length (worldLeaves L pw scene)" by (metis length_map)
    with run show ?thesis by (simp add: collect_char)
  qed
  from a b c d e show ?thesis by blast
qed

lemma looseMesh_run:
  "collectComponents runtime0 None looseMesh [] [] =
     Inr (looseMesh,
          [\<lparr>ci_id = 100,
            ci_vertices = [Vector3 0 0 0, Vector3 1 0 0, Vector3 1 1 0, Vector3 0 1 0],
            ci_triangles = [Triangle (Some 0) (Some 1) (Some 2), Triangle (Some 3) (Some 4) (Some 5)],
            ci_material = None, ci_name = ''loose''\<rparr>],
          [])"
  by (simp add: eval_defs looseMesh_def runtime0_def fourPoints_def)

theorem geometry_edge_cases_witness:
  "attributes_position fourPoints =
     Some [Vector3 0 0 0, Vector3 1 0 0, Vector3 1 1 0, Vector3 0 1 0] \<and>
   (\<exists>c ms'. collectMesh runtime0 ''loose'' (Vector3 0 0 0) fourPoints None [] [] =
       Inr ([c], ms') \<and> length (ci_vertices c) = 4 \<and> length (ci_triangles c) = 2) \<and>
   attributes_position (BufferGeometry None None) = None \<and>
   collectMesh runtime0 ''hollow'' (Vector3 0 0 0) (BufferGeometry None None) None [] [] =
     Inl TypeError \<and>
   exportTo3MF runtime0 None hollowMesh = Inl TypeError"
proof -
  have p: "attributes_position fourPoints =
     Some [Vector3 0 0 0, Vector3 1 0 0, Vector3 1 1 0, Vector3 0 1 0]"
    "geometry_index fourPoints = None"
    by (simp_all add: fourPoints_def)
  have h: "\<not> list_all hasPosition (worldLeaves runtime0 None hollowMesh)"
    by (simp add: hollowMesh_def hasPosition_def)
  from geometry_edge_cases [of fourPoints runtime0 "''loose''" "Vector3 0 0 0" None "[]" "[]"
      None hollowMesh] p h
  have one: "\<exists>c ms'. collectMesh runtime0 ''loose'' (Vector3 0 0 0) fourPoints None [] [] =
       Inr ([c], ms') \<and> length (ci_vertices c) = 4 \<and> length (ci_triangles c) = 2"
    and three: "exportTo3MF runtime0 None hollowMesh = Inl TypeError"
    by auto
  from geometry_edge_cases [of "BufferGeometry None None" runtime0 "''hollow''" "Vector3 0 0 0"
      None "[]" "[]" None hollowMesh]
  have two: "collectMesh runtime0 ''hollow'' (Vector3 0 0 0) (BufferGeometry None None) None [] [] =
     Inl TypeError"
    by simp
  from one two three p show ?thesis by simp
qed

text \<open>
  C5 as first stated fails on a mesh of four points without index, which is not skipped
  (its second triangle reads the points 3, 4 and 5), and on a mesh without position
  attribute, on which the flattener raises.
\<close>

theorem geometry_edge_cases_counterexample:
  "collectComponents runtime0 None looseMesh [] [] =
     Inr (looseMesh,
          [\<lparr>ci_id = 100,
            ci_vertices = [Vector3 0 0 0, Vector3 1 0 0, Vector3 1 1 0, Vector3 0 1 0],
            ci_triangles = [Triangle (Some 0) (Some 1) (Some 2), Triangle (Some 3) (Some 4) (Some 5)],
            ci_material = None, ci_name = ''loose''\<rparr>],
          []) \<and>
   collectComponents runtime0 None hollowMesh [] [] = Inl TypeError"
  by (simp add: looseMesh_run) (simp add: eval_defs hollowMesh_def runtime0_def)

lemma processLeaves_append:
  "processLeaves L (xs @ ys) vs ts ms =
     (case processLeaves L xs vs ts ms of Inl e \<Rightarrow> Inl e
      | Inr (vs1, ts1, ms1) \<Rightarrow> processLeaves L ys vs1 ts1 ms1)"
  by (induction xs arbitrary: vs ts ms) (auto split: sum.splits)

lemma process_char:
  "processObject L pw object vs ts ms =
     (case processLeaves L (worldLeaves L pw object) vs ts ms of
        Inl e \<Rightarrow> Inl e
      | Inr (vs1, ts1, ms1) \<Rightarrow> Inr (updateMatrixWorld L pw object, vs1, ts1, ms1))"
  "processChildren L w objects vs ts ms =
     (case processLeaves L (concat (map (worldLeaves L (Some w)) objects)) vs ts ms of
        Inl e \<Rightarrow> Inl e
      | Inr (vs1, ts1, ms1) \<Rightarrow> Inr (map (updateMatrixWorld L (Some w)) objects, vs1, ts1, ms1))"
proof (induction L pw object vs ts ms and L w objects vs ts ms
       rule: processObject_processChildren.induct)
  case (1 L parentWorld object vertices triangles materials)
  obtain t n g mat p m f w0 kids where obj: "object = Object3D t n g mat p m f w0 kids"
    by (cases object)
  define W where "W = (case parentWorld of None \<Rightarrow> compose L p | Some q \<Rightarrow> multiplyMatrices L q (compose L p))"
  have upd: "updateMatrixWorld L parentWorld object =
      Object3D t n g mat p (compose L p) False W (map (updateMatrixWorld L (Some W)) kids)"
    by (simp add: obj W_def Let_def)
  have leaves: "worldLeaves L parentWorld object =
      (if t = ''Mesh'' then [(W, n, g, mat)] else []) @
      concat (map (worldLeaves L (Some W)) kids)"
    by (simp add: obj W_def Let_def)
  have IH: "processChildren L W (map (updateMatrixWorld L (Some W)) kids) vs1 ts1 ms1 =
      (case processLeaves L (concat (map (worldLeaves L (Some W)) kids)) vs1 ts1 ms1 of
         Inl e \<Rightarrow> Inl e
       | Inr (vs2, ts2, ms2) \<Rightarrow> Inr (map (updateMatrixWorld L (Some W)) kids, vs2, ts2, ms2))"
    if "(if t = ''Mesh'' then processMesh L n W g mat vertices triangles materials
         else Inr (vertices, triangles, materials)) = Inr (vs1, ts1, ms1)" for vs1 ts1 ms1
  proof -
    have "(if obj_type (updateMatrixWorld L parentWorld object) = ''Mesh''
           then processMesh L (obj_name (updateMatrixWorld L parentWorld object))
                  (obj_matrixWorld (updateMatrixWorld L parentWorld object))
                  (obj_geometry (updateMatrixWorld L parentWorld object))
                  (obj_material (updateMatrixWorld L parentWorld object))
                  vertices triangles materials
           else Inr (vertices, triangles, materials)) = Inr (vs1, ts1, ms1)"
      using that by (simp add: upd split: if_splits)
    from "1.IH" [OF refl this refl refl] show ?thesis
      by (simp add: upd comp_def worldLeaves_update updateMatrixWorld_idem split: sum.splits)
  qed
  show ?case
  proof (cases "if t = ''Mesh'' then processMesh L n W g mat vertices triangles materials
         else Inr (vertices, triangles, materials)")
    case (Inl e)
    then show ?thesis
      by (simp add: processObject.simps [of L parentWorld object] upd leaves
           processLeaves_append split: if_splits)
  next
    case (Inr b)
    obtain vs1 ts1 ms1 where b: "b = (vs1, ts1, ms1)" by (cases b)
    from Inr b IH [of vs1 ts1 ms1] show ?thesis
      by (auto simp add: processObject.simps [of L parentWorld object] upd leaves
           processLeaves_append split: if_splits sum.splits)
  qed
next
  case (2 L w vertices triangles materials)
  show ?case by simp
next
  case (3 L w child rest vertices triangles materials)
  show ?case
    using 3 by (auto simp: processLeaves_append split: sum.splits)
qed


















lemma worldLeaves_preorder:
  "worldLeaves L pw scene = map nodeLeaf (meshNodes (updateMatrixWorld L pw scene))"
proof (induction scene arbitrary: pw)
  case (Object3D t n g mat p m f w cs)
  define W where
    "W = (case pw of None \<Rightarrow> compose L p | Some q \<Rightarrow> multiplyMatrices L q (compose L p))"
  have kids: "concat (map (worldLeaves L (Some W)) cs) =
      map nodeLeaf (filter (\<lambda>object. obj_type object = ''Mesh'')
        (concat (map preorder (map (updateMatrixWorld L (Some W)) cs))))"
    using Object3D.IH
    by (induction cs) (auto simp: meshNodes_def)
  show ?case
    using kids by (simp add: Let_def W_def meshNodes_def nodeLeaf_def)
qed

lemma update_eraseCaches:
  "updateMatrixWorld L pw (eraseCaches d scene) = updateMatrixWorld L pw scene"
proof (induction scene arbitrary: pw)
  case (Object3D t n g mat p m f w cs)
  then show ?case by (simp add: Let_def cong: map_cong)
qed


lemma worldLeaves_eraseCaches:
  "worldLeaves L pw (eraseCaches d scene) = worldLeaves L pw scene"
proof (induction scene arbitrary: pw)
  case (Object3D t n g mat p m f w cs)
  then show ?case by (simp add: Let_def cong: map_cong)
qed

lemma collectComponents_eraseCaches:
  assumes "eraseCaches d scene2 = eraseCaches d scene"
  shows "collectComponents L pw scene2 cs ms = collectComponents L pw scene cs ms"
proof -
  have "updateMatrixWorld L pw scene2 = updateMatrixWorld L pw scene"
    using update_eraseCaches [of L pw d scene2] update_eraseCaches [of L pw d scene] assms by simp
  moreover have "worldLeaves L pw scene2 = worldLeaves L pw scene"
    using worldLeaves_eraseCaches [of L pw d scene2] worldLeaves_eraseCaches [of L pw d scene] assms
    by simp
  ultimately show ?thesis by (simp add: collect_char split: sum.splits)
qed

text \<open>
  C7. \<open>collectComponents\<close>, run on any scene from empty lists, leaves the scene with every
  world matrix recomputed top-down (\<open>updateMatrixWorld\<close>), and yields one record per node
  of type \<open>Mesh\<close>, in depth-first pre-order with the children in their stored order: the
  records have the ids 100, 101, ... in that order, and the vertices of each are the
  points of the node's position attribute under the node's recomputed world matrix.
  The cached matrices the scene came with play no part: a scene that differs from it in
  them only gives the same result.
\<close>

theorem flatten_preorder_fresh_world:
  assumes "collectComponents L pw scene [] [] = Inr (scene', components, materials)"
  shows "scene' = updateMatrixWorld L pw scene \<and>
         map ci_vertices components =
           map (\<lambda>object. leafVertices L (nodeLeaf object)) (meshNodes scene') \<and>
         map ci_id components = map (\<lambda>i. 100 + i) [0 ..< length (meshNodes scene')] \<and>
         (\<forall>scene2 d. eraseCaches d scene2 = eraseCaches d scene \<longrightarrow>
            collectComponents L pw scene2 [] [] = Inr (scene', components, materials))"
proof -
  let ?leaves = "worldLeaves L pw scene"
  from assms have run: "collectLeaves L ?leaves [] [] = Inr (components, materials)"
    and upd: "scene' = updateMatrixWorld L pw scene"
    by (auto simp: collect_char split: sum.splits prod.splits)
  have "tableOk []" "materialsIn [] []" by (simp_all add: tableOk_def materialsIn_def)
  from collectLeaves_inv [OF run this]
  have vs: "map ci_vertices components = map (leafVertices L) ?leaves"
    and ids: "map ci_id components = map (\<lambda>i. 100 + i) [0 ..< length ?leaves]"
    by simp_all
  have leaves: "?leaves = map nodeLeaf (meshNodes scene')"
    by (simp add: upd worldLeaves_preorder)
  have fresh: "collectComponents L pw scene2 [] [] = Inr (scene', components, materials)"
    if "eraseCaches d scene2 = eraseCaches d scene" for scene2 d
    using collectComponents_eraseCaches [OF that] assms by simp
  from vs ids show ?thesis
    unfolding leaves using upd fresh by (simp add: comp_def)
qed

theorem flatten_preorder_fresh_world_witness:
  "collectComponents runtime0 None twoSquares [] [] =
     Inr (twoSquaresFresh, twoSquaresComponents, [orangeInfo]) \<and>
   map obj_name (meshNodes twoSquaresFresh) = [''A'', ''B''] \<and>
   map ci_vertices twoSquaresComponents =
     map (\<lambda>object. leafVertices runtime0 (nodeLeaf object)) (meshNodes twoSquaresFresh) \<and>
   map ci_id twoSquaresComponents = [100, 101] \<and>
   eraseCaches (Vector3 0 0 0) twoSquaresFresh = eraseCaches (Vector3 0 0 0) twoSquares \<and>
   collectComponents runtime0 None twoSquaresFresh [] [] =
     Inr (twoSquaresFresh, twoSquaresComponents, [orangeInfo])"
proof -
  have run: "collectComponents runtime0 None twoSquares [] [] =
     Inr (twoSquaresFresh, twoSquaresComponents, [orangeInfo])"
    by (simp add: twoSquares_run twoSquares_update)
  have er: "eraseCaches (Vector3 0 0 0) twoSquaresFresh = eraseCaches (Vector3 0 0 0) twoSquares"
    by (simp add: twoSquares_def twoSquaresFresh_def)
  have names: "map obj_name (meshNodes twoSquaresFresh) = [''A'', ''B'']"
    by (simp add: meshNodes_def twoSquaresFresh_def)
  have ids: "map ci_id twoSquaresComponents = [100, 101]"
    by (simp add: twoSquaresComponents_def)
  from flatten_preorder_fresh_world [OF run] er run names ids show ?thesis by blast
qed
















lemma length_worldLeaves: "length (worldLeaves L pw scene) = length (meshNodes scene)"
proof (induction scene arbitrary: pw)
  case (Object3D t n g mat p m f w cs)
  define W where
    "W = (case pw of None \<Rightarrow> compose L p | Some q \<Rightarrow> multiplyMatrices L q (compose L p))"
  have "length (concat (map (worldLeaves L (Some W)) cs)) =
      length (filter (\<lambda>object. obj_type object = ''Mesh'') (concat (map preorder cs)))"
    using Object3D.IH by (induction cs) (auto simp: meshNodes_def)
  then show ?case by (simp add: Let_def W_def meshNodes_def)
qed

lemma mainModel_empty:
  "path [''model'', ''resources'', ''object'', ''components'', ''component'']
     (mainModel L []) = Some (JArray [])"
  "path [''model'', ''resources'', ''object'', ''mesh''] (mainModel L []) = None"
  "path [''model'', ''resources'', ''object'', ''@_id''] (mainModel L []) = Some (JString ''97'')"
  "path [''model'', ''build'', ''item'', ''@_objectid''] (mainModel L []) = Some (JString ''97'')"
  "map_option objectHasContent (path [''model'', ''resources'', ''object''] (mainModel L [])) =
     Some False"
  by (simp_all add: mainModel_def field_def objectHasContent_def)

lemma exportTo3MF_template_empty:
  "exportTo3MF_template L scene [] scale =
     Inr (scene,
          zip_file ''_rels/.rels'' relationshipsXML_template
            (zip_file ''[Content_Types].xml'' contentTypesXML_template
              (zip_file ''3D/3dmodel.model''
                 (join ''\<newline>''
                    [templateHeader, ''    <basematerials id=\"1\">'', ''    </basematerials>'',
                     ''  </resources>'', ''  <build>'', ''  </build>'', ''</model>''])
                 Map.empty)))"
  by (simp add: exportTo3MF_template_def templateModel_def Let_def)

text \<open>
  C6 (amended). For a scene without a node of type \<open>Mesh\<close> no exporter of the repository
  raises, and none returns a file that claims geometry. The slicer-compatible exporter
  returns its archive of seven files: the object part has no object (hence no vertex and
  no triangle) and the project settings list the two padding colors, but the main model
  still declares the object 97, with an empty list of components and no mesh, and a build
  item that refers to it. The merged exporter returns its three files, where the single
  object has a mesh with no vertex and no triangle and there are no base materials. The
  text-templated exporter, given no mesh, returns its three files, where the model has
  an empty list of base materials, no object and no build item. The handlers for STL, OBJ
  and glTF hand the scene to the exporters of three.js and keep what these return; the
  handler for 3MF keeps the archive of the slicer-compatible exporter.
\<close>

theorem empty_scene_exports:
  assumes "meshNodes scene = []"
  shows "exportTo3MF L pw scene = Inr (updateMatrixWorld L pw scene, packageFiles L [] []) \<and>
         path [''model'', ''resources'', ''object'', ''components'', ''component'']
           (mainModel L []) = Some (JArray []) \<and>
         path [''model'', ''resources'', ''object'', ''mesh''] (mainModel L []) = None \<and>
         path [''model'', ''resources'', ''object'', ''@_id''] (mainModel L []) =
           Some (JString ''97'') \<and>
         path [''model'', ''build'', ''item'', ''@_objectid''] (mainModel L []) =
           Some (JString ''97'') \<and>
         map_option objectHasContent
           (path [''model'', ''resources'', ''object''] (mainModel L [])) = Some False \<and>
         path [''model'', ''resources''] (objectModel L []) = Some (JArray []) \<and>
         field ''filament_colour'' (projectSettings L []) =
           Some (JArray [JString ''#FFFFFF'', JString ''#FFFFFF'']) \<and>
         exportTo3MF_merged L pw scene =
           Inr (updateMatrixWorld L pw scene,
                zip_file ''3D/3dmodel.model'' (xmlDeclaration @ xmlBuild L (mergedModel L [] [] []))
                  (zip_file ''_rels/.rels'' relationshipsXML_merged
                    (zip_file ''[Content_Types].xml'' contentTypesXML_merged Map.empty))) \<and>
         path [''model'', ''resources'', ''object'', ''mesh'', ''vertices'', ''vertex'']
           (mergedModel L [] [] []) = Some (JArray []) \<and>
         path [''model'', ''resources'', ''object'', ''mesh'', ''triangles'', ''triangle'']
           (mergedModel L [] [] []) = Some (JArray []) \<and>
         path [''model'', ''resources'', ''basematerials''] (mergedModel L [] [] []) =
           Some JUndefined \<and>
         exportTo3MF_template L scene [] scale =
           Inr (scene,
                zip_file ''_rels/.rels'' relationshipsXML_template
                  (zip_file ''[Content_Types].xml'' contentTypesXML_template
                    (zip_file ''3D/3dmodel.model''
                       (join ''\<newline>''
                          [templateHeader, ''    <basematerials id=\"1\">'',
                           ''    </basematerials>'', ''  </resources>'', ''  <build>'',
                           ''  </build>'', ''</model>''])
                       Map.empty))) \<and>
         handleExportSTL L (Some scene) = Some (stlParse L scene) \<and>
         handleExportOBJ L (Some scene) = Some (objParse L scene) \<and>
         handleExportGLTF L (Some scene) = gltfParse L scene \<and>
         handleExport3MF L pw (Some scene) =
           Inr (Some (updateMatrixWorld L pw scene, packageFiles L [] []))"
proof -
  from assms have leaves: "worldLeaves L pw scene = []"
    using length_worldLeaves [of L pw scene] by simp
  have a: "exportTo3MF L pw scene = Inr (updateMatrixWorld L pw scene, packageFiles L [] [])"
    by (simp add: exportTo3MF_def collect_char leaves)
  have b: "exportTo3MF_merged L pw scene =
           Inr (updateMatrixWorld L pw scene,
                zip_file ''3D/3dmodel.model'' (xmlDeclaration @ xmlBuild L (mergedModel L [] [] []))
                  (zip_file ''_rels/.rels'' relationshipsXML_merged
                    (zip_file ''[Content_Types].xml'' contentTypesXML_merged Map.empty)))"
    by (simp add: exportTo3MF_merged_def createModelXML_def process_char leaves)
  have d: "path [''model'', ''resources''] (objectModel L []) = Some (JArray [])"
    by (simp add: objectModel_def field_def)
  have e: "path [''model'', ''resources'', ''object'', ''mesh'', ''vertices'', ''vertex'']
           (mergedModel L [] [] []) = Some (JArray [])"
    "path [''model'', ''resources'', ''object'', ''mesh'', ''triangles'', ''triangle'']
           (mergedModel L [] [] []) = Some (JArray [])"
    "path [''model'', ''resources'', ''basematerials''] (mergedModel L [] [] []) =
           Some JUndefined"
    by (simp_all add: mergedModel_def field_def)
  have f: "field ''filament_colour'' (projectSettings L []) =
           Some (JArray [JString ''#FFFFFF'', JString ''#FFFFFF''])"
    by (simp add: filament_colour_field numeral_2_eq_2)
  have h: "handleExportSTL L (Some scene) = Some (stlParse L scene)"
    "handleExportOBJ L (Some scene) = Some (objParse L scene)"
    "handleExportGLTF L (Some scene) = gltfParse L scene"
    "handleExport3MF L pw (Some scene) =
       Inr (Some (updateMatrixWorld L pw scene, packageFiles L [] []))"
    by (simp_all add: handleExportSTL_def handleExportOBJ_def handleExportGLTF_def
          handleExport3MF_def a)
  show ?thesis
    unfolding a b d e f h mainModel_empty exportTo3MF_template_empty by simp
qed

lemma emptyGroup_update: "updateMatrixWorld runtime0 None emptyGroup = emptyGroup"
  by (simp add: emptyGroup_def runtime0_def Let_def)

theorem empty_scene_exports_witness:
  "meshNodes emptyGroup = [] \<and>
   exportTo3MF runtime0 None emptyGroup = Inr (emptyGroup, packageFiles runtime0 [] []) \<and>
   dom (packageFiles runtime0 [] []) =
     {''[Content_Types].xml'', ''_rels/.rels'', ''3D/3dmodel.model'',
      ''3D/_rels/3dmodel.model.rels'', ''3D/Objects/object-97.model'',
      ''Metadata/model_settings.config'', ''Metadata/project_settings.config''} \<and>
   map_sum id fst (exportTo3MF_template runtime0 emptyGroup [] 1) = Inr emptyGroup"
proof -
  have e: "meshNodes emptyGroup = []" by (simp add: meshNodes_def emptyGroup_def)
  from empty_scene_exports [OF e, of runtime0 None 1] e emptyGroup_update show ?thesis
    by (simp add: dom_packageFiles)
qed

text \<open>
  C6 as first stated, with a minimal valid container or an error for the empty scene,
  fails on a group without children: the slicer-compatible exporter raises nothing and
  returns an archive whose main model has a build item for the object 97, an object
  without content: it has no mesh and its list of components is empty. The object part
  the main model refers to has no resources.
\<close>

theorem empty_scene_counterexample:
  "meshNodes emptyGroup = [] \<and>
   exportTo3MF runtime0 None emptyGroup = Inr (emptyGroup, packageFiles runtime0 [] []) \<and>
   packageFiles runtime0 [] [] ''3D/3dmodel.model'' =
     Some (xmlDeclaration @ xmlBuild runtime0 (mainModel runtime0 [])) \<and>
   path [''model'', ''build'', ''item'', ''@_objectid''] (mainModel runtime0 []) =
     Some (JString ''97'') \<and>
   path [''model'', ''resources'', ''object'', ''@_id''] (mainModel runtime0 []) =
     Some (JString ''97'') \<and>
   path [''model'', ''resources'', ''object'', ''components'', ''component'']
     (mainModel runtime0 []) = Some (JArray []) \<and>
   path [''model'', ''resources'', ''object'', ''mesh''] (mainModel runtime0 []) = None \<and>
   map_option objectHasContent
     (path [''model'', ''resources'', ''object''] (mainModel runtime0 [])) = Some False \<and>
   packageFiles runtime0 [] [] ''3D/Objects/object-97.model'' =
     Some (xmlDeclaration @ xmlBuild runtime0 (objectModel runtime0 [])) \<and>
   path [''model'', ''resources''] (objectModel runtime0 []) = Some (JArray [])"
proof -
  have e: "meshNodes emptyGroup = []" by (simp add: meshNodes_def emptyGroup_def)
  have o: "path [''model'', ''resources''] (objectModel runtime0 []) = Some (JArray [])"
    by (simp add: objectModel_def field_def)
  have "worldLeaves runtime0 None emptyGroup = []" by (simp add: emptyGroup_def)
  then have run: "exportTo3MF runtime0 None emptyGroup =
      Inr (emptyGroup, packageFiles runtime0 [] [])"
    by (simp add: exportTo3MF_def collect_char emptyGroup_update)
  from e o run mainModel_empty [of runtime0] show ?thesis
    by (simp add: packageFiles_lookup createMainModelXML_def createObjectModelXML_def)
qed













lemma natToString_examples:
  "natToString 10 123450000 = ''123450000''"
  "natToString 10 333333 = ''333333''"
  "natToString 10 2000000 = ''2000000''"
  "natToString 10 0 = ''0''"
  by (simp_all add: natToString.simps digitChar_def)


lemma toFixed_example2: "toFixed runtime0 6 (- 1 / 3) = ''-0.333333''"
  by (simp add: toFixed_def Let_def natToString_examples)









end
